theory Spec2Isabelle
  imports Main "HOL-Library.Word"
begin

section \<open>Data model\<close>

text \<open>
  The development embeds \<^verbatim>\<open>bluetti_bt_lib/bluetooth/device_reader.py\<close> (class
  \<^verbatim>\<open>DeviceReader\<close>), and the coordinator callbacks and the write path of
  \<^verbatim>\<open>button.py\<close> and \<^verbatim>\<open>binary_sensor.py\<close>.

  The code is a set of coroutines on one event loop. Every \<^verbatim>\<open>await\<close> is a
  point where the transport answers; the answers are not chosen by the program, so they
  are an explicit argument (the environment, below) and the coroutines become functions
  from the reader's state and the environment's answers to an outcome and a new state.
  Exceptions are values of type \<open>exn\<close>; \<open>except TimeoutError\<close> is read as on
  Python 3.11 and later, where \<^verbatim>\<open>asyncio.TimeoutError\<close> is the builtin
  \<^verbatim>\<open>TimeoutError\<close>.
\<close>

type_synonym byte = "8 word"
type_synonym bytes = "byte list"

text \<open>
  The exceptions the code names. A cancellation is a \<^verbatim>\<open>BaseException\<close>, so
  \<^verbatim>\<open>except Exception\<close> does not catch it. There are two of them, though Python has
  one class: \<open>TimeoutCancelled\<close> is the cancellation that the task sees at an
  \<^verbatim>\<open>await\<close> when the deadline of the enclosing \<^verbatim>\<open>async_timeout.timeout\<close>
  has passed, and only this one is turned into \<open>TimeoutError\<close> when the context is
  left; \<open>CancelledError\<close> is any other cancellation (one that a call raises itself),
  which no clause of the code catches. \<open>OtherError\<close> stands for any exception class
  the code does not name.
\<close>

datatype exn =
    TimeoutError
  | BleakError
  | ModbusError byte
  | BadConnectionError
  | ParseError
  | CancelledError
  | TimeoutCancelled
  | OtherError

datatype 'a outcome = Return 'a | Raise exn

text \<open>An \<^verbatim>\<open>asyncio.Future\<close>: unresolved, resolved with bytes, failed, or cancelled.\<close>

datatype fut_state =
    FutPending
  | FutResult bytes
  | FutException exn
  | FutCancelled

text \<open>
  A command object (\<^verbatim>\<open>ReadHoldingRegisters\<close>, or the setter command built by the
  device). The class lives in \<^verbatim>\<open>utils/commands.py\<close>, which is not among the
  sources at hand, so its methods are fields of the record: every theorem holds for
  whatever these methods compute. \<open>wire\<close> is \<^verbatim>\<open>bytes(command)\<close>.
\<close>

record command =
  starting_address :: nat
  wire :: bytes
  response_size :: nat
  is_valid_response :: "bytes \<Rightarrow> bool"
  is_exception_response :: "bytes \<Rightarrow> bool"
  parse_response :: "bytes \<Rightarrow> bytes"

text \<open>Values of decoded fields, with Python's \<^verbatim>\<open>None\<close>.\<close>

datatype pyval =
    PNone
  | PBool bool
  | PInt int
  | PStr string
  | PDecimal int nat
  | PEnum string

text \<open>
  The device description (\<^verbatim>\<open>BluettiDevice\<close>, also outside the sources at hand):
  its command lists, its pack count, its field decoder and its setter-command builder.
  A decoded result is a Python dict, kept as the list of its items in insertion order.
\<close>

record device =
  polling_commands :: "command list"
  pack_polling_commands :: "command list"
  pack_num_max :: nat
  parse :: "nat \<Rightarrow> bytes \<Rightarrow> (string \<times> pyval) list"
  build_setter_command :: "string \<Rightarrow> pyval \<Rightarrow> command"

text \<open>
  What the program does to the outside, in the order it does it: log records at level
  info, warning and error (debug records are left out), lock operations, transport
  calls and sleeps. \<open>CallbackRaised\<close> records an exception that leaves the
  notification callback.
\<close>

datatype loglevel = Info | Warning | Error

datatype effect =
    Log loglevel string
  | AcquireLock
  | ReleaseLock
  | Connect
  | StartNotify
  | StopNotify
  | Disconnect
  | WriteGattChar bytes
  | WaitFor
  | Sleep nat
  | CallbackRaised
  | RequestRefresh

text \<open>
  The state of one \<^verbatim>\<open>DeviceReader\<close>: its fields, the connection flag of its
  \<^verbatim>\<open>BleakClient\<close>, and the effects so far. \<^verbatim>\<open>polling_timeout\<close> has no field:
  where the overall timeout fires is the environment's choice.
\<close>

record reader =
  bluetti_device :: "device option"
  persistent_conn :: bool
  max_retries :: nat
  has_notifier :: bool
  notify_future :: "fut_state option"
  current_command :: "command option"
  notify_response :: bytes
  client_is_connected :: bool
  trace :: "effect list"

definition emit :: "effect list \<Rightarrow> reader \<Rightarrow> reader" where
  "emit es r = r\<lparr>trace := trace r @ es\<rparr>"

section \<open>The environment\<close>

text \<open>
  The answer to a transport call: it returns, it raises, or the overall timeout fires
  while the task is suspended in it. A sleep returns or is cut by the overall timeout.
  A wait on the future sees the notifications that arrive, in order, and, if they
  leave the future unresolved, ends by the per-command timeout or by the overall one.
\<close>

datatype call_reply = Ok | Err exn | Cancel

datatype sleep_reply = Slept | SleepCancelled

datatype wait_end = PerCommandTimeout | OverallTimeout

record send_script =
  write_reply :: call_reply
  arrivals :: "bytes list"
  wait_ends :: wait_end

text \<open>
  One poll's answers, keyed by where the poll asks: connect attempt, backoff sleep after
  an attempt, the subscription, the \<open>i\<close>-th polling command, the pack-select command
  of a pack, the settle sleep of a pack, the \<open>j\<close>-th pack command of a pack, and the
  two calls of the \<^verbatim>\<open>finally\<close> block.
\<close>

record env =
  on_connect :: "nat \<Rightarrow> call_reply"
  on_backoff :: "nat \<Rightarrow> sleep_reply"
  on_start_notify :: call_reply
  on_main :: "nat \<Rightarrow> send_script"
  on_select :: "nat \<Rightarrow> send_script"
  on_settle :: "nat \<Rightarrow> sleep_reply"
  on_pack :: "nat \<Rightarrow> nat \<Rightarrow> send_script"
  on_stop_notify :: call_reply
  on_disconnect :: call_reply

section \<open>The request-response correlator\<close>

text \<open>The two notifications that show a confused link: \<^verbatim>\<open>b"AT+NAME?\r"\<close> and \<^verbatim>\<open>b"AT+ADV?\r"\<close>.\<close>

definition AT_NAME :: bytes where
  "AT_NAME = [0x41, 0x54, 0x2B, 0x4E, 0x41, 0x4D, 0x45, 0x3F, 0x0D]"

definition AT_ADV :: bytes where
  "AT_ADV = [0x41, 0x54, 0x2B, 0x41, 0x44, 0x56, 0x3F, 0x0D]"

text \<open>
  \<^verbatim>\<open>DeviceReader._notification_handler\<close>. The message of the Modbus branch reads
  \<^verbatim>\<open>self.notify_response[2]\<close>, which raises \<^verbatim>\<open>IndexError\<close> on a buffer of two
  bytes or fewer; a missing current command raises \<^verbatim>\<open>AttributeError\<close>. Either
  leaves the callback with the buffer extended and the future untouched.
\<close>

definition notification_handler :: "reader \<Rightarrow> bytes \<Rightarrow> reader" where
  "notification_handler r data =
     (case notify_future r of
        None \<Rightarrow> emit [Log Warning ''Unexpected notification''] r
      | Some FutPending \<Rightarrow>
          if data = AT_NAME \<or> data = AT_ADV
          then r\<lparr>notify_future := Some (FutException BadConnectionError)\<rparr>
          else
            let buf = notify_response r @ data;
                r1 = r\<lparr>notify_response := buf\<rparr>
            in (case current_command r of
                  None \<Rightarrow> emit [CallbackRaised] r1
                | Some c \<Rightarrow>
                    if length buf = response_size c
                    then (if is_valid_response c buf
                          then r1\<lparr>notify_future := Some (FutResult buf)\<rparr>
                          else r1\<lparr>notify_future := Some (FutException ParseError)\<rparr>)
                    else if is_exception_response c buf
                    then (if 2 < length buf
                          then r1\<lparr>notify_future := Some (FutException (ModbusError (buf ! 2)))\<rparr>
                          else emit [CallbackRaised] r1)
                    else r1)
      | Some _ \<Rightarrow> emit [Log Warning ''Unexpected notification''] r)"

text \<open>
  \<^verbatim>\<open>asyncio.wait_for(self.notify_future, timeout=RESPONSE_TIMEOUT)\<close>: the
  notifications of the script run through the handler; a resolved future gives its
  result or raises its exception; an unresolved one is cancelled when either timeout
  ends the wait.
\<close>

definition wait_for :: "reader \<Rightarrow> send_script \<Rightarrow> bytes outcome \<times> reader" where
  "wait_for r sc =
     (let r1 = foldl notification_handler (emit [WaitFor] r) (arrivals sc)
      in case notify_future r1 of
           Some (FutResult bs) \<Rightarrow> (Return bs, r1)
         | Some (FutException e) \<Rightarrow> (Raise e, r1)
         | Some FutCancelled \<Rightarrow> (Raise CancelledError, r1)
         | Some FutPending \<Rightarrow>
             (case wait_ends sc of
                PerCommandTimeout \<Rightarrow> (Raise TimeoutError, r1\<lparr>notify_future := Some FutCancelled\<rparr>)
              | OverallTimeout \<Rightarrow> (Raise TimeoutCancelled, r1\<lparr>notify_future := Some FutCancelled\<rparr>))
         | None \<Rightarrow> (Raise OtherError, r1))"

text \<open>The \<^verbatim>\<open>except\<close> clauses of \<^verbatim>\<open>_async_send_command\<close>, in their order.\<close>

fun send_except :: "exn \<Rightarrow> reader \<Rightarrow> bytes outcome \<times> reader" where
  "send_except TimeoutError r =
     (Return [], emit [Log Warning ''Polling single command timed out''] r)"
| "send_except (ModbusError code) r =
     (Return [], emit [Log Warning ''Got an invalid request error''] r)"
| "send_except BadConnectionError r =
     (Return [], emit [Log Warning ''Needed to disconnect due to error''] r)"
| "send_except BleakError r =
     (Return [], emit [Log Warning ''Needed to disconnect due to error''] r)"
| "send_except e r = (Raise e, r)"

text \<open>
  The first three statements of \<^verbatim>\<open>_async_send_command\<close> (``prepare to make
  request''): the command, a new future from the future builder, an empty buffer.
\<close>

definition prepare_request :: "reader \<Rightarrow> command \<Rightarrow> reader" where
  "prepare_request r command =
     r\<lparr>current_command := Some command,
       notify_future := Some FutPending,
       notify_response := []\<rparr>"

text \<open>
  \<^verbatim>\<open>DeviceReader._async_send_command\<close>: install the exchange, write the command,
  wait for the future; a caught exception gives the empty bytes object.
\<close>

definition async_send_command :: "reader \<Rightarrow> command \<Rightarrow> send_script \<Rightarrow> bytes outcome \<times> reader" where
  "async_send_command r command sc =
     (let r1 = prepare_request r command;
          r2 = emit [WriteGattChar (wire command)] r1;
          (res, r3) = (case write_reply sc of
                         Ok \<Rightarrow> wait_for r2 sc
                       | Err e \<Rightarrow> (Raise e, r2)
                       | Cancel \<Rightarrow> (Raise TimeoutCancelled, r2))
      in case res of
           Return bs \<Rightarrow> (Return bs, r3)
         | Raise e \<Rightarrow> send_except e r3)"

section \<open>Connection handling\<close>

text \<open>A transport call: the effect is recorded, the environment's answer decides.\<close>

definition transport_call :: "effect \<Rightarrow> call_reply \<Rightarrow> reader \<Rightarrow> unit outcome \<times> reader" where
  "transport_call ef reply r =
     (case reply of
        Ok \<Rightarrow> (Return (), emit [ef] r)
      | Err e \<Rightarrow> (Raise e, emit [ef] r)
      | Cancel \<Rightarrow> (Raise TimeoutCancelled, emit [ef] r))"

text \<open>
  The reconnect loop of \<^verbatim>\<open>read_data\<close>, over the attempts that remain;
  \<^verbatim>\<open>read_data\<close> starts it on \<^verbatim>\<open>range(1, self.max_retries + 1)\<close>. An exhausted
  range falls through to the code after the loop.
\<close>

fun connect_loop :: "env \<Rightarrow> reader \<Rightarrow> nat list \<Rightarrow> unit outcome \<times> reader" where
  "connect_loop env r [] = (Return (), r)"
| "connect_loop env r (attempt # rest) =
     (if client_is_connected r then (Return (), r)
      else
        (case transport_call Connect (on_connect env attempt) r of
           (Return u, r1) \<Rightarrow> (Return (), r1\<lparr>client_is_connected := True\<rparr>)
         | (Raise e, r1) \<Rightarrow>
             if e = CancelledError \<or> e = TimeoutCancelled then (Raise e, r1)
             else if attempt = max_retries r \<or> attempt = 1 then (Raise e, r1)
             else
               (let r2 = emit [Log Warning ''Connect unsucessful. Retrying...'', Sleep 2] r1
                in case on_backoff env attempt of
                     Slept \<Rightarrow> connect_loop env r2 rest
                   | SleepCancelled \<Rightarrow> (Raise TimeoutCancelled, r2))))"

text \<open>Attach the notifier if needed.\<close>

definition attach_notifier :: "env \<Rightarrow> reader \<Rightarrow> unit outcome \<times> reader" where
  "attach_notifier env r =
     (if \<not> has_notifier r
      then (case transport_call StartNotify (on_start_notify env) r of
              (Return u, r1) \<Rightarrow> (Return (), r1\<lparr>has_notifier := True\<rparr>)
            | (Raise e, r1) \<Rightarrow> (Raise e, r1))
      else (Return (), r))"

text \<open>
  The \<^verbatim>\<open>finally\<close> block of \<^verbatim>\<open>read_data\<close>. It runs outside the timeout
  context; an exception of one of its calls leaves the block at that call.
\<close>

definition read_data_finally :: "env \<Rightarrow> reader \<Rightarrow> unit outcome \<times> reader" where
  "read_data_finally env r =
     (if \<not> persistent_conn r
      then
        (case (if has_notifier r
               then (case transport_call StopNotify (on_stop_notify env) r of
                       (Return u, r1) \<Rightarrow> (Return (), r1\<lparr>has_notifier := False\<rparr>)
                     | (Raise e, r1) \<Rightarrow> (Raise e, r1))
               else (Return (), r)) of
           (Return u, r2) \<Rightarrow>
             (case transport_call Disconnect (on_disconnect env) r2 of
                (Return u, r3) \<Rightarrow> (Return (), r3\<lparr>client_is_connected := False\<rparr>)
              | (Raise e, r3) \<Rightarrow> (Raise e, r3))
         | (Raise e, r2) \<Rightarrow> (Raise e, r2))
      else (Return (), r))"

section \<open>The polling orchestrator\<close>

type_synonym fields = "string \<rightharpoonup> pyval"

text \<open>\<^verbatim>\<open>dict.update\<close> with the items of a dict, and \<^verbatim>\<open>dict.get\<close> on such items.\<close>

definition dict_update :: "fields \<Rightarrow> (string \<times> pyval) list \<Rightarrow> fields" where
  "dict_update m items = fold (\<lambda>(key, value) m'. m'(key \<mapsto> value)) items m"

definition dict_get :: "(string \<times> pyval) list \<Rightarrow> string \<Rightarrow> pyval" where
  "dict_get items key = (case map_of (rev items) key of None \<Rightarrow> PNone | Some v \<Rightarrow> v)"

text \<open>\<^verbatim>\<open>str\<close> of a natural number: its decimal digits.\<close>

fun str_nat :: "nat \<Rightarrow> string" where
  "str_nat n =
     (if n < 10 then [char_of (48 + n)]
      else str_nat (n div 10) @ [char_of (48 + n mod 10)])"

declare str_nat.simps [simp del]

text \<open>
  \<^verbatim>\<open>isinstance(v, int)\<close> and \<^verbatim>\<open>v != pack\<close> on decoded values. Python's
  \<^verbatim>\<open>bool\<close> is a subclass of \<^verbatim>\<open>int\<close>, with \<^verbatim>\<open>True == 1\<close>.
\<close>

fun isinstance_int :: "pyval \<Rightarrow> bool" where
  "isinstance_int (PInt n) = True"
| "isinstance_int (PBool b) = True"
| "isinstance_int v = False"

fun int_value :: "pyval \<Rightarrow> int" where
  "int_value (PInt n) = n"
| "int_value (PBool b) = (if b then 1 else 0)"
| "int_value v = 0"

text \<open>One polling command of the main device: the body of the first \<^verbatim>\<open>for\<close> loop.\<close>

definition poll_command ::
  "device \<Rightarrow> reader \<Rightarrow> command \<Rightarrow> send_script \<Rightarrow> fields \<Rightarrow> unit outcome \<times> reader \<times> fields" where
  "poll_command dev r command sc parsed_data =
     (case async_send_command r command sc of
        (Return res, r1) \<Rightarrow>
          (let body = parse_response command res;
               parsed = parse dev (starting_address command) body
           in (Return (), r1, dict_update parsed_data parsed))
      | (Raise e, r1) \<Rightarrow>
          if e = ParseError
          then (Return (), emit [Log Warning ''Got a parse exception''] r1, parsed_data)
          else (Raise e, r1, parsed_data))"

fun poll_commands ::
  "(nat \<Rightarrow> send_script) \<Rightarrow> device \<Rightarrow> reader \<Rightarrow> nat \<Rightarrow> command list \<Rightarrow> fields
     \<Rightarrow> unit outcome \<times> reader \<times> fields" where
  "poll_commands scripts dev r i [] parsed_data = (Return (), r, parsed_data)"
| "poll_commands scripts dev r i (command # rest) parsed_data =
     (case poll_command dev r command (scripts i) parsed_data of
        (Return u, r1, parsed_data1) \<Rightarrow> poll_commands scripts dev r1 (Suc i) rest parsed_data1
      | (Raise e, r1, parsed_data1) \<Rightarrow> (Raise e, r1, parsed_data1))"

text \<open>One pack command of the selected pack: the body of the innermost loop.\<close>

definition poll_pack_command ::
  "device \<Rightarrow> nat \<Rightarrow> reader \<Rightarrow> command \<Rightarrow> send_script \<Rightarrow> fields \<Rightarrow> unit outcome \<times> reader \<times> fields" where
  "poll_pack_command dev pack r command sc parsed_data =
     (case async_send_command r command sc of
        (Return res, r1) \<Rightarrow>
          (let body = parse_response command res;
               parsed = parse dev (starting_address command) body;
               pack_number = dict_get parsed ''pack_num''
           in if \<not> isinstance_int pack_number \<or> int_value pack_number \<noteq> int pack
              then (Return (), r1, parsed_data)
              else (Return (), r1,
                    fold (\<lambda>(key, value) m. m(key @ str_nat pack \<mapsto> value)) parsed parsed_data))
      | (Raise e, r1) \<Rightarrow>
          if e = ParseError
          then (Return (), emit [Log Warning ''Got a parse exception...''] r1, parsed_data)
          else (Raise e, r1, parsed_data))"

fun poll_pack_commands ::
  "(nat \<Rightarrow> send_script) \<Rightarrow> device \<Rightarrow> nat \<Rightarrow> reader \<Rightarrow> nat \<Rightarrow> command list \<Rightarrow> fields
     \<Rightarrow> unit outcome \<times> reader \<times> fields" where
  "poll_pack_commands scripts dev pack r j [] parsed_data = (Return (), r, parsed_data)"
| "poll_pack_commands scripts dev pack r j (command # rest) parsed_data =
     (case poll_pack_command dev pack r command (scripts j) parsed_data of
        (Return u, r1, parsed_data1) \<Rightarrow>
          poll_pack_commands scripts dev pack r1 (Suc j) rest parsed_data1
      | (Raise e, r1, parsed_data1) \<Rightarrow> (Raise e, r1, parsed_data1))"

text \<open>
  The loop over the packs: select the pack (this exchange is outside the inner
  \<^verbatim>\<open>try\<close>), sleep five seconds, poll the pack commands.
\<close>

fun poll_packs ::
  "env \<Rightarrow> device \<Rightarrow> reader \<Rightarrow> nat list \<Rightarrow> command list \<Rightarrow> fields
     \<Rightarrow> unit outcome \<times> reader \<times> fields" where
  "poll_packs env dev r [] pack_commands parsed_data = (Return (), r, parsed_data)"
| "poll_packs env dev r (pack # rest) pack_commands parsed_data =
     (case async_send_command r (build_setter_command dev ''pack_num'' (PInt (int pack)))
             (on_select env pack) of
        (Raise e, r1) \<Rightarrow> (Raise e, r1, parsed_data)
      | (Return res, r1) \<Rightarrow>
          (let r2 = emit [Sleep 5] r1
           in case on_settle env pack of
                SleepCancelled \<Rightarrow> (Raise TimeoutCancelled, r2, parsed_data)
              | Slept \<Rightarrow>
                  (case poll_pack_commands (on_pack env pack) dev pack r2 0 pack_commands
                          parsed_data of
                     (Return u, r3, parsed_data3) \<Rightarrow>
                       poll_packs env dev r3 rest pack_commands parsed_data3
                   | (Raise e, r3, parsed_data3) \<Rightarrow> (Raise e, r3, parsed_data3))))"

text \<open>The body of the timeout context of \<^verbatim>\<open>read_data\<close>.\<close>

definition read_data_body ::
  "env \<Rightarrow> device \<Rightarrow> reader \<Rightarrow> command list \<Rightarrow> command list \<Rightarrow> unit outcome \<times> reader \<times> fields" where
  "read_data_body env dev r commands pack_commands =
     (case connect_loop env r [1..<Suc (max_retries r)] of
        (Raise e, r1) \<Rightarrow> (Raise e, r1, Map.empty)
      | (Return u, r1) \<Rightarrow>
          (case attach_notifier env r1 of
             (Raise e, r2) \<Rightarrow> (Raise e, r2, Map.empty)
           | (Return u, r2) \<Rightarrow>
               (case poll_commands (on_main env) dev r2 0 commands Map.empty of
                  (Raise e, r3, parsed_data) \<Rightarrow> (Raise e, r3, parsed_data)
                | (Return u, r3, parsed_data) \<Rightarrow>
                    if 0 < length pack_commands
                    then poll_packs env dev r3 [1..<Suc (pack_num_max dev)] pack_commands
                           parsed_data
                    else (Return (), r3, parsed_data))))"

text \<open>
  Leaving \<^verbatim>\<open>async_timeout.timeout\<close>: the cancellation it caused becomes
  \<^verbatim>\<open>TimeoutError\<close>.
\<close>

definition timeout_scope :: "unit outcome \<Rightarrow> unit outcome" where
  "timeout_scope res =
     (case res of
        Return u \<Rightarrow> Return u
      | Raise e \<Rightarrow> if e = TimeoutCancelled then Raise TimeoutError else Raise e)"

text \<open>
  What follows the body in \<^verbatim>\<open>read_data\<close>: the two \<^verbatim>\<open>except\<close> clauses, which
  return \<open>None\<close>; any other exception goes on; without an exception the function
  will return the dict.
\<close>

definition read_data_except ::
  "unit outcome \<Rightarrow> fields \<Rightarrow> reader \<Rightarrow> fields option outcome \<times> reader" where
  "read_data_except res parsed_data r =
     (case timeout_scope res of
        Return u \<Rightarrow> (Return (Some parsed_data), r)
      | Raise e \<Rightarrow>
          if e = TimeoutError
          then (Return None, emit [Log Error ''Polling timed out''] r)
          else if e = BleakError
          then (Return None, emit [Log Error ''Bleak error''] r)
          else (Raise e, r))"

text \<open>
  \<^verbatim>\<open>DeviceReader.read_data\<close>. The result is the returned value (\<open>None\<close> or the
  dict) or the exception that leaves the coroutine. The \<^verbatim>\<open>finally\<close> block runs
  before the value is returned, and an exception of its own replaces the value.
\<close>

definition read_data ::
  "env \<Rightarrow> reader \<Rightarrow> command list option \<Rightarrow> fields option outcome \<times> reader" where
  "read_data env r filter_registers =
     (let r0 = emit [Log Info ''Reading data''] r
      in case bluetti_device r0 of
           None \<Rightarrow> (Return None, emit [Log Error ''Device is None''] r0)
         | Some dev \<Rightarrow>
             (let commands = (case filter_registers of
                                None \<Rightarrow> polling_commands dev
                              | Some f \<Rightarrow> f);
                  pack_commands = (case filter_registers of
                                     None \<Rightarrow> pack_polling_commands dev
                                   | Some f \<Rightarrow> []);
                  r1 = emit [AcquireLock] r0;
                  (res, r2, parsed_data) = read_data_body env dev r1 commands pack_commands;
                  (ret, r3) = read_data_except res parsed_data r2;
                  (fin, r4) = read_data_finally env r3;
                  r5 = emit [ReleaseLock] r4
              in case fin of
                   Raise e \<Rightarrow> (Raise e, r5)
                 | Return u \<Rightarrow> (ret, r5)))"

section \<open>The write path of the button\<close>

text \<open>
  The answers to one \<^verbatim>\<open>BluettiButton.write_to_device\<close>: its connect, its write,
  its sleep and the disconnect of its \<^verbatim>\<open>finally\<close> block.
\<close>

record write_env =
  w_connect :: call_reply
  w_write :: call_reply
  w_sleep :: sleep_reply
  w_disconnect :: call_reply

text \<open>
  The body of the timeout context of \<^verbatim>\<open>write_to_device\<close>: connect if needed,
  write the command, sleep five seconds.
\<close>

definition write_to_device_body :: "write_env \<Rightarrow> command \<Rightarrow> reader \<Rightarrow> unit outcome \<times> reader" where
  "write_to_device_body wenv command r =
     (case (if \<not> client_is_connected r
            then (case transport_call Connect (w_connect wenv) r of
                    (Return u, ra) \<Rightarrow> (Return (), ra\<lparr>client_is_connected := True\<rparr>)
                  | (Raise e, ra) \<Rightarrow> (Raise e, ra))
            else (Return (), r)) of
        (Raise e, rb) \<Rightarrow> (Raise e, rb)
      | (Return u, rb) \<Rightarrow>
          (case transport_call (WriteGattChar (wire command)) (w_write wenv) rb of
             (Raise e, rc) \<Rightarrow> (Raise e, rc)
           | (Return u, rc) \<Rightarrow>
               (case w_sleep wenv of
                  Slept \<Rightarrow> (Return (), emit [Sleep 5] rc)
                | SleepCancelled \<Rightarrow> (Raise TimeoutCancelled, emit [Sleep 5] rc))))"

text \<open>The \<^verbatim>\<open>finally\<close> block of \<^verbatim>\<open>write_to_device\<close>.\<close>

definition write_to_device_finally :: "write_env \<Rightarrow> reader \<Rightarrow> unit outcome \<times> reader" where
  "write_to_device_finally wenv r =
     (if \<not> persistent_conn r
      then (case transport_call Disconnect (w_disconnect wenv) r of
              (Return u, rd) \<Rightarrow> (Return (), rd\<lparr>client_is_connected := False\<rparr>)
            | (Raise e, rd) \<Rightarrow> (Raise e, rd))
      else (Return (), r))"

text \<open>
  \<^verbatim>\<open>BluettiButton.write_to_device\<close>. The button works on the coordinator's client,
  lock and persistent-connection flag, which are the reader's here. Both
  \<^verbatim>\<open>except\<close> clauses return before the refresh request; \<open>returned\<close> tells
  whether one of them did.
\<close>

definition write_to_device ::
  "write_env \<Rightarrow> device \<Rightarrow> string \<Rightarrow> reader \<Rightarrow> bool \<Rightarrow> unit outcome \<times> reader" where
  "write_to_device wenv dev key r state =
     (let command = build_setter_command dev key (PBool state);
          r1 = emit [AcquireLock] r;
          (res, r2) = write_to_device_body wenv command r1;
          (ret, r3) =
            (case timeout_scope res of
               Return u \<Rightarrow> (Return False, r2)
             | Raise e \<Rightarrow>
                 if e = TimeoutError
                 then (Return True, emit [Log Error ''Timed out for device''] r2)
                 else if e = BleakError
                 then (Return True, emit [Log Error ''Bleak error''] r2)
                 else (Raise e, r2));
          (fin, r4) = write_to_device_finally wenv r3;
          r5 = emit [ReleaseLock] r4
      in case fin of
           Raise e \<Rightarrow> (Raise e, r5)
         | Return u \<Rightarrow>
             (case ret of
                Raise e \<Rightarrow> (Raise e, r5)
              | Return returned \<Rightarrow>
                  if returned then (Return (), r5)
                  else (Return (), emit [RequestRefresh] r5)))"

section \<open>Coordinator updates of the entities\<close>

text \<open>
  \<^verbatim>\<open>coordinator.data\<close> is a dict or something else (\<^verbatim>\<open>None\<close> after a failed
  poll). An entity keeps its availability and its on-state; \<open>state_writes\<close> counts
  the calls of \<^verbatim>\<open>async_write_ha_state\<close>, \<open>entity_log\<close> holds its log records.
\<close>

datatype pydata = NotADict | Dict fields

record entity =
  response_key :: string
  attr_available :: bool
  attr_is_on :: "bool option"
  state_writes :: nat
  entity_log :: "effect list"

text \<open>\<^verbatim>\<open>isinstance(v, bool)\<close> and \<^verbatim>\<open>v is True\<close>.\<close>

fun isinstance_bool :: "pyval \<Rightarrow> bool" where
  "isinstance_bool (PBool b) = True"
| "isinstance_bool v = False"

fun is_True :: "pyval \<Rightarrow> bool" where
  "is_True (PBool b) = b"
| "is_True v = False"

text \<open>
  \<^verbatim>\<open>BluettiBinarySensor._handle_coordinator_update\<close>. The first two arguments are
  \<^verbatim>\<open>coordinator.reader.persistent_conn\<close> and
  \<^verbatim>\<open>coordinator.reader.client.is_connected\<close>.
\<close>

definition binary_sensor_handle_coordinator_update ::
  "bool \<Rightarrow> bool \<Rightarrow> pydata \<Rightarrow> entity \<Rightarrow> entity" where
  "binary_sensor_handle_coordinator_update persistent connected data ent =
     (if persistent \<and> \<not> connected then ent
      else
        (case data of
           NotADict \<Rightarrow> ent\<lparr>attr_available := False\<rparr>
         | Dict d \<Rightarrow>
             (let response_data = (case d (response_key ent) of None \<Rightarrow> PNone | Some v \<Rightarrow> v)
              in if response_data = PNone then ent\<lparr>attr_available := False\<rparr>
                 else if \<not> isinstance_bool response_data
                 then ent\<lparr>attr_available := False,
                          entity_log := entity_log ent @
                            [Log Warning ''Invalid response data type from coordinator'']\<rparr>
                 else ent\<lparr>attr_available := True,
                          attr_is_on := Some (is_True response_data),
                          state_writes := Suc (state_writes ent)\<rparr>)))"

text \<open>
  \<^verbatim>\<open>BluettiButton._handle_coordinator_update\<close>. The first two arguments are
  \<^verbatim>\<open>coordinator.persistent_conn\<close> and \<^verbatim>\<open>coordinator.client.is_connected\<close>.
\<close>

definition button_handle_coordinator_update ::
  "bool \<Rightarrow> bool \<Rightarrow> pydata \<Rightarrow> entity \<Rightarrow> entity" where
  "button_handle_coordinator_update persistent connected data ent =
     (if persistent \<and> \<not> connected then ent
      else
        (case data of
           NotADict \<Rightarrow>
             ent\<lparr>attr_available := False,
                 entity_log := entity_log ent @ [Log Error ''Invalid data from coordinator'']\<rparr>
         | Dict d \<Rightarrow>
             (let response_data = (case d (response_key ent) of None \<Rightarrow> PNone | Some v \<Rightarrow> v)
              in if response_data = PNone then ent\<lparr>attr_available := False\<rparr>
                 else if \<not> isinstance_bool response_data
                 then ent\<lparr>attr_available := False,
                          entity_log := entity_log ent @
                            [Log Warning ''Invalid response data type from coordinator'']\<rparr>
                 else ent\<lparr>attr_available := True,
                          attr_is_on := Some (is_True response_data),
                          state_writes := Suc (state_writes ent)\<rparr>)))"

section \<open>Sample inputs\<close>

text \<open>
  Concrete values at which the theorems below are evaluated. The theorems themselves
  hold for every command and every device. The sample command reads \<open>quantity\<close>
  registers and expects a frame of three header bytes, two bytes for each register and
  two trailing bytes; as a stand-in for the checksum of \<^verbatim>\<open>commands.py\<close>, a frame
  is valid when its last byte is the sum of the bytes before it. An exception frame
  has \<open>0x83\<close> as its second byte.
\<close>

definition sample_command :: "nat \<Rightarrow> nat \<Rightarrow> command" where
  "sample_command address quantity =
     \<lparr>starting_address = address,
      wire = [1, 3, of_nat address, of_nat quantity],
      response_size = 2 * quantity + 5,
      is_valid_response = (\<lambda>bs. 3 \<le> length bs \<and> last bs = sum_list (butlast bs)),
      is_exception_response = (\<lambda>bs. 2 \<le> length bs \<and> bs ! 1 = 0x83),
      parse_response = (\<lambda>bs. drop 3 (take (length bs - 2) bs))\<rparr>"

definition sample_setter :: "string \<Rightarrow> pyval \<Rightarrow> command" where
  "sample_setter key v =
     \<lparr>starting_address = 0,
      wire = [1, 6, of_int (int_value v)],
      response_size = 8,
      is_valid_response = (\<lambda>bs. 3 \<le> length bs \<and> last bs = sum_list (butlast bs)),
      is_exception_response = (\<lambda>bs. 2 \<le> length bs \<and> bs ! 1 = 0x86),
      parse_response = (\<lambda>bs. drop 3 (take (length bs - 2) bs))\<rparr>"

text \<open>
  The sample device polls registers 10, 20 and 30, and register 91 of each of three
  packs; register 91 decodes to the pack number and a voltage.
\<close>

definition sample_parse :: "nat \<Rightarrow> bytes \<Rightarrow> (string \<times> pyval) list" where
  "sample_parse address body =
     (if address = 91
      then (case body of
              [a, b, c, d] \<Rightarrow> [(''pack_num'', PInt (uint b)), (''voltage'', PInt (uint d))]
            | _ \<Rightarrow> [])
      else (case body of
              [a, b] \<Rightarrow> [(''reg'' @ str_nat address, PInt (uint b))]
            | _ \<Rightarrow> []))"

definition sample_device :: device where
  "sample_device =
     \<lparr>polling_commands = [sample_command 10 1, sample_command 20 1, sample_command 30 1],
      pack_polling_commands = [sample_command 91 2],
      pack_num_max = 3,
      parse = sample_parse,
      build_setter_command = sample_setter\<rparr>"

definition sample_reader :: reader where
  "sample_reader =
     \<lparr>bluetti_device = Some sample_device,
      persistent_conn = False,
      max_retries = 5,
      has_notifier = False,
      notify_future = None,
      current_command = None,
      notify_response = [],
      client_is_connected = False,
      trace = []\<rparr>"

text \<open>A frame answering a one-register read with the value \<open>v\<close>, and one answering
  the two-register read of a pack with the pack number \<open>p\<close> and the value \<open>v\<close>.\<close>

definition sample_frame :: "byte \<Rightarrow> bytes" where
  "sample_frame v = [1, 3, 2, 0, v, 0, 6 + v]"

definition sample_pack_frame :: "byte \<Rightarrow> byte \<Rightarrow> bytes" where
  "sample_pack_frame p v = [1, 3, 4, 0, p, 0, v, 0, 8 + p + v]"

definition answer :: "bytes list \<Rightarrow> send_script" where
  "answer frames = \<lparr>write_reply = Ok, arrivals = frames, wait_ends = PerCommandTimeout\<rparr>"

text \<open>
  An environment in which every call returns: polling command \<open>i\<close> is answered with
  the value \<open>80 + i\<close>, the pack-select command is echoed, and pack \<open>p\<close> answers
  with its own number and the value \<open>50 + p\<close>.
\<close>

definition calm_env :: env where
  "calm_env =
     \<lparr>on_connect = (\<lambda>attempt. Ok),
      on_backoff = (\<lambda>attempt. Slept),
      on_start_notify = Ok,
      on_main = (\<lambda>i. answer [sample_frame (of_nat (80 + i))]),
      on_select = (\<lambda>p. answer [[1, 6, 0, 0, 0, of_nat p, 0, 7 + of_nat p]]),
      on_settle = (\<lambda>p. Slept),
      on_pack = (\<lambda>p j. answer [sample_pack_frame (of_nat p) (of_nat (50 + p))]),
      on_stop_notify = Ok,
      on_disconnect = Ok\<rparr>"

text \<open>A reader in the middle of an exchange: the command for register 10 is outstanding
  and four bytes of its answer have arrived.\<close>

definition busy_reader :: reader where
  "busy_reader = (prepare_request sample_reader (sample_command 10 1))\<lparr>notify_response := [1, 3, 2, 0]\<rparr>"

text \<open>An environment whose first two connect attempts fail.\<close>

definition flaky_env :: env where
  "flaky_env = calm_env\<lparr>on_connect := (\<lambda>attempt. if attempt < 3 then Err BleakError else Ok)\<rparr>"

text \<open>A write in which every call returns, and an entity that shows a switch.\<close>

definition calm_write_env :: write_env where
  "calm_write_env = \<lparr>w_connect = Ok, w_write = Ok, w_sleep = Slept, w_disconnect = Ok\<rparr>"

definition sample_entity :: entity where
  "sample_entity =
     \<lparr>response_key = ''ac_output_on'',
      attr_available = False,
      attr_is_on = None,
      state_writes = 0,
      entity_log = []\<rparr>"





section \<open>Notions used in the statements\<close>

text \<open>
  The states a future can be in after the notification handler has worked on an
  unresolved one: unresolved, resolved, or failed with one of the three exceptions the
  handler sets.
\<close>

fun handler_made :: "fut_state option \<Rightarrow> bool" where
  "handler_made (Some FutPending) = True"
| "handler_made (Some (FutResult bs)) = True"
| "handler_made (Some (FutException BadConnectionError)) = True"
| "handler_made (Some (FutException ParseError)) = True"
| "handler_made (Some (FutException (ModbusError code))) = True"
| "handler_made f = False"

text \<open>The value under a key in what \<^verbatim>\<open>read_data\<close> returned, if it returned a dict.\<close>

definition lookup_result :: "fields option outcome \<Rightarrow> string \<Rightarrow> pyval option" where
  "lookup_result res k = (case res of Return (Some m) \<Rightarrow> m k | _ \<Rightarrow> None)"




text \<open>
  The effects of the body of a poll: everything but the teardown calls, the lock
  operations and the refresh request.
\<close>

fun body_effect :: "effect \<Rightarrow> bool" where
  "body_effect StopNotify = False"
| "body_effect Disconnect = False"
| "body_effect AcquireLock = False"
| "body_effect ReleaseLock = False"
| "body_effect RequestRefresh = False"
| "body_effect e = True"

text \<open>
  \<open>only_emits P r r'\<close>: the state \<open>r'\<close> comes after \<open>r\<close>, and every effect
  recorded in between satisfies \<open>P\<close>.
\<close>

definition only_emits :: "(effect \<Rightarrow> bool) \<Rightarrow> reader \<Rightarrow> reader \<Rightarrow> bool" where
  "only_emits P r r' = (\<exists>es. trace r' = trace r @ es \<and> list_all P es)"

text \<open>
  \<open>body_step r r'\<close>: from \<open>r\<close> to \<open>r'\<close> only effects of the body were recorded,
  the persistent-connection flag is the same and a set notifier flag is still set.
\<close>

definition body_step :: "reader \<Rightarrow> reader \<Rightarrow> bool" where
  "body_step r r' =
     (only_emits body_effect r r' \<and> persistent_conn r' = persistent_conn r \<and>
      (has_notifier r \<longrightarrow> has_notifier r'))"

section \<open>Properties of the correlator\<close>

lemma emit_emit: "emit es (emit ds r) = emit (ds @ es) r"
  by (simp add: emit_def)

lemma handler_done:
  "notify_future r = Some f \<Longrightarrow> f \<noteq> FutPending \<Longrightarrow>
   notification_handler r d = emit [Log Warning ''Unexpected notification''] r"
  by (cases f) (simp_all add: notification_handler_def)

lemma handler_incomplete:
  assumes "notify_future r = Some FutPending" "current_command r = Some c"
    and "d \<noteq> AT_NAME" "d \<noteq> AT_ADV"
    and "length (notify_response r @ d) \<noteq> response_size c"
    and "\<not> is_exception_response c (notify_response r @ d)"
  shows "notification_handler r d = r\<lparr>notify_response := notify_response r @ d\<rparr>"
  using assms by (simp add: notification_handler_def Let_def)

lemma handler_complete:
  assumes "notify_future r = Some FutPending" "current_command r = Some c"
    and "d \<noteq> AT_NAME" "d \<noteq> AT_ADV"
    and "length (notify_response r @ d) = response_size c"
  shows "notification_handler r d =
           r\<lparr>notify_response := notify_response r @ d,
             notify_future := Some (if is_valid_response c (notify_response r @ d)
                                    then FutResult (notify_response r @ d)
                                    else FutException ParseError)\<rparr>"
  using assms by (simp add: notification_handler_def Let_def)

lemma handler_accumulates:
  assumes "notify_future r = Some FutPending" "current_command r = Some c"
    and "\<forall>d \<in> set frags. d \<noteq> AT_NAME \<and> d \<noteq> AT_ADV"
    and "\<forall>k. 0 < k \<and> k \<le> length frags \<longrightarrow>
           length (notify_response r @ concat (take k frags)) \<noteq> response_size c \<and>
           \<not> is_exception_response c (notify_response r @ concat (take k frags))"
  shows "foldl notification_handler r frags =
           r\<lparr>notify_response := notify_response r @ concat frags\<rparr>"
  using assms
proof (induction frags rule: rev_induct)
  case Nil
  then show ?case by simp
next
  case (snoc d frags)
  have pre: "\<forall>k. 0 < k \<and> k \<le> length frags \<longrightarrow>
           length (notify_response r @ concat (take k frags)) \<noteq> response_size c \<and>
           \<not> is_exception_response c (notify_response r @ concat (take k frags))"
  proof (intro allI impI)
    fix k assume k: "0 < k \<and> k \<le> length frags"
    then have "0 < k \<and> k \<le> length (frags @ [d])" by simp
    with snoc.prems(4) have "length (notify_response r @ concat (take k (frags @ [d]))) \<noteq> response_size c \<and>
           \<not> is_exception_response c (notify_response r @ concat (take k (frags @ [d])))" by blast
    with k show "length (notify_response r @ concat (take k frags)) \<noteq> response_size c \<and>
           \<not> is_exception_response c (notify_response r @ concat (take k frags))" by simp
  qed
  let ?r' = "r\<lparr>notify_response := notify_response r @ concat frags\<rparr>"
  have ih: "foldl notification_handler r frags = ?r'"
    using snoc.IH snoc.prems(1,2,3) pre by simp
  have full: "length (notify_response r @ concat (frags @ [d])) \<noteq> response_size c \<and>
           \<not> is_exception_response c (notify_response r @ concat (frags @ [d]))"
    using snoc.prems(4)[rule_format, of "length (frags @ [d])"] by simp
  have d: "d \<noteq> AT_NAME" "d \<noteq> AT_ADV" using snoc.prems(3) by simp_all
  have "notification_handler ?r' d = ?r'\<lparr>notify_response := notify_response ?r' @ d\<rparr>"
    using full d snoc.prems(1,2) by (intro handler_incomplete[where c = c]) simp_all
  then show ?case using ih by simp
qed

lemma prepare_overwrites:
  "prepare_request (r\<lparr>notify_future := f, current_command := k, notify_response := b\<rparr>) c =
     prepare_request r c"
  by (simp add: prepare_request_def)

lemma send_replaces_exchange:
  "async_send_command (r\<lparr>notify_future := f, current_command := k, notify_response := b\<rparr>) c sc =
     async_send_command r c sc"
  by (simp add: async_send_command_def prepare_overwrites)

lemma handler_command [simp]: "current_command (notification_handler r d) = current_command r"
  by (simp add: notification_handler_def emit_def Let_def split: option.splits fut_state.splits)

lemma handler_fold_command [simp]:
  "current_command (foldl notification_handler r ds) = current_command r"
  by (induction ds arbitrary: r) simp_all

lemma wait_for_command [simp]: "current_command (snd (wait_for r sc)) = current_command r"
  by (simp add: wait_for_def emit_def Let_def split: option.splits fut_state.splits wait_end.splits)

lemma send_except_command [simp]: "current_command (snd (send_except e r)) = current_command r"
  by (cases e) (simp_all add: emit_def)

lemma send_current_command: "current_command (snd (async_send_command r c sc)) = Some c"
  by (cases "write_reply sc")
     (simp_all add: async_send_command_def prepare_request_def emit_def Let_def case_prod_beta
      split: outcome.splits)

lemma handler_made_step:
  "handler_made (notify_future r) \<Longrightarrow> handler_made (notify_future (notification_handler r d))"
  by (auto simp: notification_handler_def emit_def Let_def
      split: option.splits fut_state.splits)

lemma handler_made_fold:
  "handler_made (notify_future r) \<Longrightarrow> handler_made (notify_future (foldl notification_handler r ds))"
  by (induction ds arbitrary: r) (simp_all add: handler_made_step)

lemma handler_made_cases:
  assumes "handler_made f"
  shows "f = Some FutPending \<or> (\<exists>bs. f = Some (FutResult bs)) \<or>
         f = Some (FutException BadConnectionError) \<or> f = Some (FutException ParseError) \<or>
         (\<exists>code. f = Some (FutException (ModbusError code)))"
  using assms by (cases f rule: handler_made.cases) simp_all

lemma wait_for_timeout_cancels:
  assumes "notify_future r = Some FutPending"
    and "fst (wait_for r sc) = Raise TimeoutError"
  shows "notify_future (snd (wait_for r sc)) = Some FutCancelled"
proof -
  let ?r1 = "foldl notification_handler (emit [WaitFor] r) (arrivals sc)"
  have "handler_made (notify_future ?r1)"
    using assms(1) by (intro handler_made_fold) (simp add: emit_def)
  from handler_made_cases[OF this] show ?thesis
    using assms(2)
    by (auto simp: wait_for_def Let_def split: wait_end.splits)
qed

lemma wait_for_timeout_trace:
  assumes "notify_future r = Some FutPending"
    and "fst (wait_for r sc) = Raise TimeoutError"
  shows "snd (wait_for r sc) =
           (foldl notification_handler (emit [WaitFor] r) (arrivals sc))\<lparr>notify_future := Some FutCancelled\<rparr>"
proof -
  let ?r1 = "foldl notification_handler (emit [WaitFor] r) (arrivals sc)"
  have "handler_made (notify_future ?r1)"
    using assms(1) by (intro handler_made_fold) (simp add: emit_def)
  from handler_made_cases[OF this] show ?thesis
    using assms(2)
    by (auto simp: wait_for_def Let_def split: wait_end.splits)
qed

lemma send_timeout:
  assumes w: "write_reply sc = Ok"
    and t: "fst (wait_for (emit [WriteGattChar (wire c)] (prepare_request r c)) sc) = Raise TimeoutError"
  shows "async_send_command r c sc =
           (Return [], emit [Log Warning ''Polling single command timed out'']
                         (snd (wait_for (emit [WriteGattChar (wire c)] (prepare_request r c)) sc)))"
  using w t by (simp add: async_send_command_def Let_def case_prod_beta)

text \<open>
  Claim C4, as amended. When the write returns and the wait ends by the per-command
  timeout, \<^verbatim>\<open>_async_send_command\<close> logs a warning, as the last thing it does, and
  returns the empty bytes object, not an error; the future is left cancelled, so a
  notification that comes later is discarded with a warning; and the orchestrator
  goes on: the step of the polling loop returns normally, having decoded the empty
  body like any other answer, the loop continues with the remaining commands from
  the state and the result map of that step, and the step of the pack loop returns
  normally as well.
\<close>

theorem per_command_timeout_returns_empty:
  assumes w: "write_reply sc = Ok"
    and t: "fst (wait_for (emit [WriteGattChar (wire c)] (prepare_request r c)) sc) = Raise TimeoutError"
  shows "fst (async_send_command r c sc) = Return [] \<and>
         trace (snd (async_send_command r c sc)) =
           trace (snd (wait_for (emit [WriteGattChar (wire c)] (prepare_request r c)) sc)) @
           [Log Warning ''Polling single command timed out''] \<and>
         notify_future (snd (async_send_command r c sc)) = Some FutCancelled \<and>
         notification_handler (snd (async_send_command r c sc)) late =
           emit [Log Warning ''Unexpected notification''] (snd (async_send_command r c sc)) \<and>
         poll_command dev r c sc parsed_data =
           (Return (), snd (async_send_command r c sc),
            dict_update parsed_data (parse dev (starting_address c) (parse_response c []))) \<and>
         (scripts i = sc \<longrightarrow>
            poll_commands scripts dev r i (c # rest) parsed_data =
              poll_commands scripts dev (snd (async_send_command r c sc)) (Suc i) rest
                (dict_update parsed_data (parse dev (starting_address c) (parse_response c [])))) \<and>
         fst (poll_pack_command dev pack r c sc parsed_data) = Return ()"
proof -
  let ?r2 = "emit [WriteGattChar (wire c)] (prepare_request r c)"
  have p: "notify_future ?r2 = Some FutPending"
    by (simp add: emit_def prepare_request_def)
  have s: "async_send_command r c sc =
           (Return [], emit [Log Warning ''Polling single command timed out''] (snd (wait_for ?r2 sc)))"
    by (rule send_timeout[OF w t])
  have tr: "trace (snd (async_send_command r c sc)) =
           trace (snd (wait_for ?r2 sc)) @ [Log Warning ''Polling single command timed out'']"
    by (simp add: s emit_def)
  have f: "notify_future (snd (async_send_command r c sc)) = Some FutCancelled"
    using wait_for_timeout_cancels[OF p t] by (simp add: s emit_def)
  have l: "notification_handler (snd (async_send_command r c sc)) late =
           emit [Log Warning ''Unexpected notification''] (snd (async_send_command r c sc))"
    by (rule handler_done[OF f]) simp
  have pc: "poll_command dev r c sc parsed_data =
           (Return (), snd (async_send_command r c sc),
            dict_update parsed_data (parse dev (starting_address c) (parse_response c [])))"
    by (simp add: poll_command_def s Let_def)
  have loop: "scripts i = sc \<longrightarrow>
            poll_commands scripts dev r i (c # rest) parsed_data =
              poll_commands scripts dev (snd (async_send_command r c sc)) (Suc i) rest
                (dict_update parsed_data (parse dev (starting_address c) (parse_response c [])))"
    by (simp add: pc)
  have pk: "fst (poll_pack_command dev pack r c sc parsed_data) = Return ()"
    by (simp add: poll_pack_command_def s Let_def)
  show ?thesis using s tr f l pc loop pk by simp
qed

text \<open>
  Claim C4 as stated expects a timeout error for the caller. With no notification at
  all, the call returns a value, the empty bytes object.
\<close>

theorem per_command_timeout_counterexample:
  "fst (async_send_command sample_reader (sample_command 10 1) (answer [])) = Return []"
  by code_simp

text \<open>The amended claim at a concrete exchange: three bytes arrive, then nothing.\<close>

theorem per_command_timeout_witness:
  "fst (async_send_command sample_reader (sample_command 10 1) (answer [[1, 3, 2]])) = Return [] \<and>
   notify_future (snd (async_send_command sample_reader (sample_command 10 1) (answer [[1, 3, 2]])))
     = Some FutCancelled \<and>
   trace (snd (async_send_command sample_reader (sample_command 10 1) (answer [[1, 3, 2]]))) =
     [WriteGattChar [1, 3, 10, 1], WaitFor, Log Warning ''Polling single command timed out'']"
proof -
  have w: "write_reply (answer [[1, 3, 2]]) = Ok"
    by (simp add: answer_def)
  have t: "fst (wait_for (emit [WriteGattChar (wire (sample_command 10 1))]
                   (prepare_request sample_reader (sample_command 10 1))) (answer [[1, 3, 2]]))
             = Raise TimeoutError"
    by code_simp
  have tw: "trace (snd (wait_for (emit [WriteGattChar (wire (sample_command 10 1))]
                   (prepare_request sample_reader (sample_command 10 1))) (answer [[1, 3, 2]])))
             = [WriteGattChar [1, 3, 10, 1], WaitFor]"
    by code_simp
  from per_command_timeout_returns_empty[OF w t] tw show ?thesis by simp
qed

text \<open>
  Claim C3. An exchange for the command \<open>c\<close> is pending and has accumulated some
  bytes. Fragments arrive, none of them an AT+ notification; while the buffer is
  incomplete it neither has the expected length nor the shape of an exception frame;
  the last fragment \<open>d\<close> brings the buffer to exactly \<open>response_size c\<close> bytes.
  Then the future is resolved with exactly the accumulated bytes when their checksum
  is valid, and fails with \<open>ParseError\<close> otherwise; no exchange is pending any more;
  any later notification is discarded with the warning and changes nothing else; and
  the caller waiting on the future gets these bytes (or the \<open>ParseError\<close>) whatever
  the timeouts would have been.
\<close>

theorem notification_resolves_exchange:
  assumes pending: "notify_future r = Some FutPending"
    and cmd: "current_command r = Some c"
    and sentinels: "\<forall>x \<in> set (frags @ [d]). x \<noteq> AT_NAME \<and> x \<noteq> AT_ADV"
    and partial: "\<forall>k. 0 < k \<and> k \<le> length frags \<longrightarrow>
           length (notify_response r @ concat (take k frags)) \<noteq> response_size c \<and>
           \<not> is_exception_response c (notify_response r @ concat (take k frags))"
    and total: "length (notify_response r @ concat frags @ d) = response_size c"
  shows "notify_future (foldl notification_handler r (frags @ [d])) =
           Some (if is_valid_response c (notify_response r @ concat frags @ d)
                 then FutResult (notify_response r @ concat frags @ d)
                 else FutException ParseError) \<and>
         notify_future (foldl notification_handler r (frags @ [d])) \<noteq> Some FutPending \<and>
         notification_handler (foldl notification_handler r (frags @ [d])) late =
           emit [Log Warning ''Unexpected notification'']
             (foldl notification_handler r (frags @ [d])) \<and>
         fst (wait_for r \<lparr>write_reply = w, arrivals = frags @ [d], wait_ends = e\<rparr>) =
           (if is_valid_response c (notify_response r @ concat frags @ d)
            then Return (notify_response r @ concat frags @ d)
            else Raise ParseError)"
proof -
  let ?buf = "notify_response r @ concat frags @ d"
  let ?acc = "r\<lparr>notify_response := notify_response r @ concat frags\<rparr>"
  have s: "\<forall>x \<in> set frags. x \<noteq> AT_NAME \<and> x \<noteq> AT_ADV" and d: "d \<noteq> AT_NAME" "d \<noteq> AT_ADV"
    using sentinels by simp_all
  have run: "\<And>q. notify_future q = Some FutPending \<Longrightarrow> current_command q = Some c \<Longrightarrow>
      notify_response q = notify_response r \<Longrightarrow>
      notify_future (foldl notification_handler q (frags @ [d])) =
        Some (if is_valid_response c ?buf then FutResult ?buf else FutException ParseError)"
  proof -
    fix q :: reader
    assume q: "notify_future q = Some FutPending" "current_command q = Some c"
      "notify_response q = notify_response r"
    let ?qa = "q\<lparr>notify_response := notify_response q @ concat frags\<rparr>"
    have acc: "foldl notification_handler q frags = ?qa"
      using q s partial by (intro handler_accumulates[where c = c]) simp_all
    have "notification_handler ?qa d =
            ?qa\<lparr>notify_response := notify_response ?qa @ d,
                notify_future := Some (if is_valid_response c (notify_response ?qa @ d)
                                       then FutResult (notify_response ?qa @ d)
                                       else FutException ParseError)\<rparr>"
      using q d total by (intro handler_complete) simp_all
    then show "notify_future (foldl notification_handler q (frags @ [d])) =
        Some (if is_valid_response c ?buf then FutResult ?buf else FutException ParseError)"
      using acc q(3) by simp
  qed
  have f: "notify_future (foldl notification_handler r (frags @ [d])) =
        Some (if is_valid_response c ?buf then FutResult ?buf else FutException ParseError)"
    using run[OF pending cmd] by simp
  then have np: "notify_future (foldl notification_handler r (frags @ [d])) \<noteq> Some FutPending"
    by simp
  have late: "notification_handler (foldl notification_handler r (frags @ [d])) late =
           emit [Log Warning ''Unexpected notification''] (foldl notification_handler r (frags @ [d]))"
    using f by (intro handler_done[OF f]) simp
  have fw: "notify_future (foldl notification_handler (emit [WaitFor] r) (frags @ [d])) =
        Some (if is_valid_response c ?buf then FutResult ?buf else FutException ParseError)"
    using pending cmd by (intro run) (simp_all add: emit_def)
  have wf: "fst (wait_for r \<lparr>write_reply = w, arrivals = frags @ [d], wait_ends = e\<rparr>) =
           (if is_valid_response c ?buf then Return ?buf else Raise ParseError)"
    using fw by (simp add: wait_for_def Let_def del: foldl_append)
  show ?thesis using f np late wf by blast
qed

text \<open>An answer of seven bytes that arrives as four bytes and then three.\<close>

theorem notification_resolves_exchange_witness:
  "notify_future (foldl notification_handler (prepare_request sample_reader (sample_command 10 1))
      [[1, 3, 2, 0], [80, 0, 86]]) = Some (FutResult [1, 3, 2, 0, 80, 0, 86]) \<and>
   fst (wait_for (prepare_request sample_reader (sample_command 10 1))
      \<lparr>write_reply = Ok, arrivals = [[1, 3, 2, 0], [80, 0, 86]], wait_ends = PerCommandTimeout\<rparr>)
     = Return [1, 3, 2, 0, 80, 0, 86]"
proof -
  let ?r = "prepare_request sample_reader (sample_command 10 1)"
  have p: "notify_future ?r = Some FutPending" by (simp add: prepare_request_def)
  have c: "current_command ?r = Some (sample_command 10 1)" by (simp add: prepare_request_def)
  have s: "\<forall>x \<in> set ([[1, 3, 2, 0]] @ [[80, 0, 86]]). x \<noteq> AT_NAME \<and> x \<noteq> AT_ADV"
    by (simp add: AT_NAME_def AT_ADV_def)
  have k: "\<forall>k. 0 < k \<and> k \<le> length [[1, 3, 2, 0 :: byte]] \<longrightarrow>
           length (notify_response ?r @ concat (take k [[1, 3, 2, 0]])) \<noteq> response_size (sample_command 10 1) \<and>
           \<not> is_exception_response (sample_command 10 1) (notify_response ?r @ concat (take k [[1, 3, 2, 0]]))"
    by (simp add: prepare_request_def sample_command_def)
  have t: "length (notify_response ?r @ concat [[1, 3, 2, 0]] @ [80, 0, 86]) = response_size (sample_command 10 1)"
    by (simp add: prepare_request_def sample_command_def)
  have v: "is_valid_response (sample_command 10 1) [1, 3, 2, 0, 80, 0, 86]"
    by (simp add: sample_command_def)
  from notification_resolves_exchange[OF p c s k t, of late Ok PerCommandTimeout] v
  show ?thesis by (simp add: prepare_request_def)
qed

text \<open>
  Claim C1, as amended. \<^verbatim>\<open>_async_send_command\<close> has no check for an outstanding
  exchange. Whatever future, command and buffer the reader holds, the call behaves as
  if they were not there: it installs the new command with a new unresolved future and
  an empty buffer, and its outcome and final state do not depend on what it replaced.
\<close>

theorem send_installs_new_exchange:
  "async_send_command (r\<lparr>notify_future := f, current_command := k, notify_response := b\<rparr>) c sc =
     async_send_command r c sc \<and>
   current_command (snd (async_send_command r c sc)) = Some c \<and>
   notify_future (prepare_request r c) = Some FutPending \<and>
   notify_response (prepare_request r c) = []"
  by (simp add: send_replaces_exchange send_current_command prepare_request_def)

text \<open>
  Claim C1 as stated expects the call to be rejected. Here an exchange for register 10
  is pending; the call for register 20 is carried out, returns the answer, and the
  reader's current command is the new one.
\<close>

theorem send_while_pending_counterexample:
  "notify_future busy_reader = Some FutPending \<and>
   map_option starting_address (current_command busy_reader) = Some 10 \<and>
   fst (async_send_command busy_reader (sample_command 20 1) (answer [sample_frame 81]))
     = Return (sample_frame 81) \<and>
   map_option starting_address
     (current_command (snd (async_send_command busy_reader (sample_command 20 1)
        (answer [sample_frame 81])))) = Some 20"
  by code_simp

text \<open>The amended claim at the busy reader.\<close>

theorem send_installs_new_exchange_witness:
  "async_send_command busy_reader (sample_command 20 1) (answer [sample_frame 81]) =
     async_send_command sample_reader (sample_command 20 1) (answer [sample_frame 81]) \<and>
   notify_future busy_reader = Some FutPending"
proof -
  have b: "busy_reader = sample_reader\<lparr>notify_future := Some FutPending,
             current_command := Some (sample_command 10 1), notify_response := [1, 3, 2, 0]\<rparr>"
    by (simp add: busy_reader_def prepare_request_def)
  have "notify_future busy_reader = Some FutPending" by (simp add: b)
  with send_installs_new_exchange[where r = sample_reader and f = "Some FutPending"
      and k = "Some (sample_command 10 1)" and b = "[1, 3, 2, 0]"
      and c = "sample_command 20 1" and sc = "answer [sample_frame 81]"]
  show ?thesis by (simp add: b)
qed

section \<open>Properties of the connection handling\<close>

lemma upt_from_one: "1 \<le> m \<Longrightarrow> [1..<Suc m] = 1 # [2..<Suc m]"
  by (simp add: upt_conv_Cons numeral_2_eq_2)

text \<open>
  The body of the reconnect loop at the attempt \<open>a\<close>, with the attempts \<open>rest\<close> to
  follow, for a client that is not connected and an exception \<open>e\<close> that
  \<^verbatim>\<open>except Exception\<close> catches.
\<close>

lemma connect_loop_policy:
  assumes nc: "\<not> client_is_connected r"
    and ex: "e \<noteq> CancelledError" "e \<noteq> TimeoutCancelled"
  shows "(on_connect env a = Err e \<and> (a = 1 \<or> a = max_retries r) \<longrightarrow>
            connect_loop env r (a # rest) = (Raise e, emit [Connect] r)) \<and>
         (on_connect env a = Err e \<and> 1 < a \<and> a < max_retries r \<and> on_backoff env a = Slept \<longrightarrow>
            connect_loop env r (a # rest) =
              connect_loop env
                (emit [Connect, Log Warning ''Connect unsucessful. Retrying...'', Sleep 2] r) rest) \<and>
         (on_connect env a = Ok \<longrightarrow>
            connect_loop env r (a # rest) =
              (Return (), (emit [Connect] r)\<lparr>client_is_connected := True\<rparr>)) \<and>
         connect_loop env (r\<lparr>client_is_connected := True\<rparr>) (a # rest) =
           (Return (), r\<lparr>client_is_connected := True\<rparr>)"
  using nc ex by (auto simp: transport_call_def emit_def)

text \<open>
  The loop of \<^verbatim>\<open>read_data\<close> starts at attempt 1, where a connect that returns
  breaks the loop and a connect that fails is raised: it makes one connect call and
  never reaches a second attempt.
\<close>

lemma connect_loop_first_attempt:
  assumes nc: "\<not> client_is_connected r"
    and mr: "1 \<le> max_retries r"
  shows "connect_loop env r [1..<Suc (max_retries r)] =
           (case on_connect env 1 of
              Ok \<Rightarrow> (Return (), (emit [Connect] r)\<lparr>client_is_connected := True\<rparr>)
            | Err x \<Rightarrow> (Raise x, emit [Connect] r)
            | Cancel \<Rightarrow> (Raise TimeoutCancelled, emit [Connect] r))"
proof -
  have one: "[1..<Suc (max_retries r)] = 1 # [2..<Suc (max_retries r)]"
    using mr by (rule upt_from_one)
  have "connect_loop env r (1 # [2..<Suc (max_retries r)]) =
           (case on_connect env 1 of
              Ok \<Rightarrow> (Return (), (emit [Connect] r)\<lparr>client_is_connected := True\<rparr>)
            | Err x \<Rightarrow> (Raise x, emit [Connect] r)
            | Cancel \<Rightarrow> (Raise TimeoutCancelled, emit [Connect] r))"
    using nc by (cases "on_connect env 1") (simp_all add: transport_call_def)
  then show ?thesis by (simp only: one)
qed

section \<open>Properties of the write path and of the entities\<close>

lemma write_body_effects:
  "\<exists>es. trace (snd (write_to_device_body wenv cmd r)) = trace r @ es \<and>
        set es \<subseteq> {Connect, WriteGattChar (wire cmd), Sleep 5}"
  by (cases "w_connect wenv"; cases "w_write wenv"; cases "w_sleep wenv")
     (simp_all add: write_to_device_body_def transport_call_def emit_def)

lemma write_body_fields:
  "notify_future (snd (write_to_device_body wenv cmd r)) = notify_future r \<and>
   current_command (snd (write_to_device_body wenv cmd r)) = current_command r \<and>
   notify_response (snd (write_to_device_body wenv cmd r)) = notify_response r \<and>
   has_notifier (snd (write_to_device_body wenv cmd r)) = has_notifier r \<and>
   persistent_conn (snd (write_to_device_body wenv cmd r)) = persistent_conn r"
  by (cases "w_connect wenv"; cases "w_write wenv"; cases "w_sleep wenv")
     (simp_all add: write_to_device_body_def transport_call_def emit_def)

lemma write_body_calm:
  assumes "w_connect wenv = Ok" "w_write wenv = Ok" "w_sleep wenv = Slept"
  shows "fst (write_to_device_body wenv cmd r) = Return () \<and>
         trace (snd (write_to_device_body wenv cmd r)) =
           trace r @ (if client_is_connected r then [] else [Connect]) @
           [WriteGattChar (wire cmd), Sleep 5]"
  using assms by (simp add: write_to_device_body_def transport_call_def emit_def)

lemma write_finally_cases:
  "trace (snd (write_to_device_finally wenv r)) =
     trace r @ (if persistent_conn r then [] else [Disconnect]) \<and>
   notify_future (snd (write_to_device_finally wenv r)) = notify_future r \<and>
   current_command (snd (write_to_device_finally wenv r)) = current_command r \<and>
   notify_response (snd (write_to_device_finally wenv r)) = notify_response r \<and>
   has_notifier (snd (write_to_device_finally wenv r)) = has_notifier r \<and>
   (persistent_conn r \<or> w_disconnect wenv = Ok \<longrightarrow> fst (write_to_device_finally wenv r) = Return ())"
  by (cases "w_disconnect wenv")
     (simp_all add: write_to_device_finally_def transport_call_def emit_def)

text \<open>The stage between the body and the \<^verbatim>\<open>finally\<close> block, as a relation.\<close>

lemma write_to_device_unfold:
  assumes b: "write_to_device_body wenv (build_setter_command dev key (PBool state))
                (emit [AcquireLock] r) = (res, r2)"
  shows "\<exists>ret lg. set lg \<subseteq> {Log Error ''Timed out for device'', Log Error ''Bleak error''} \<and>
           (res = Return () \<longrightarrow> lg = [] \<and> ret = Return False) \<and>
           write_to_device wenv dev key r state =
             (let (fin, r4) = write_to_device_finally wenv (emit lg r2);
                  r5 = emit [ReleaseLock] r4
              in case fin of
                   Raise e \<Rightarrow> (Raise e, r5)
                 | Return u \<Rightarrow>
                     (case ret of
                        Raise e \<Rightarrow> (Raise e, r5)
                      | Return returned \<Rightarrow>
                          if returned then (Return (), r5)
                          else (Return (), emit [RequestRefresh] r5)))"
proof (cases res)
  case (Return u)
  have e: "emit [] r2 = r2" by (simp add: emit_def)
  show ?thesis
    by (rule exI[of _ "Return False"], rule exI[of _ "[]"])
       (simp add: write_to_device_def b Return timeout_scope_def Let_def e)
next
  case (Raise x)
  consider "x = TimeoutError \<or> x = TimeoutCancelled" | "x = BleakError"
    | "x \<noteq> TimeoutError" "x \<noteq> TimeoutCancelled" "x \<noteq> BleakError" by blast
  then show ?thesis
  proof cases
    case 1
    show ?thesis
      by (rule exI[of _ "Return True"], rule exI[of _ "[Log Error ''Timed out for device'']"])
         (use 1 in \<open>auto simp: write_to_device_def b Raise timeout_scope_def Let_def\<close>)
  next
    case 2
    show ?thesis
      by (rule exI[of _ "Return True"], rule exI[of _ "[Log Error ''Bleak error'']"])
         (use 2 in \<open>simp add: write_to_device_def b Raise timeout_scope_def Let_def\<close>)
  next
    case 3
    have e: "emit [] r2 = r2" by (simp add: emit_def)
    show ?thesis
      by (rule exI[of _ "Raise x"], rule exI[of _ "[]"])
         (use 3 in \<open>simp add: write_to_device_def b Raise timeout_scope_def Let_def e\<close>)
  qed
qed

text \<open>
  Claim C9. When its calls return, \<^verbatim>\<open>write_to_device\<close> does exactly this, in this
  order: it acquires the polling lock, connects unless the client is connected, writes
  the bytes of the setter command, sleeps five seconds, disconnects unless the
  connection is persistent, releases the lock (and then asks the coordinator for a
  refresh). On every path, whatever the calls answer, the reader's future, current
  command and buffer are untouched, the function never waits on a future, and all
  what it does lies between the acquisition and the release of the lock and is made
  of connect, write, sleep, error log and disconnect only; after the release there
  is at most the refresh request.
\<close>

theorem write_to_device_sequence:
  "(w_connect wenv = Ok \<and> w_write wenv = Ok \<and> w_sleep wenv = Slept \<and> w_disconnect wenv = Ok \<longrightarrow>
      fst (write_to_device wenv dev key r state) = Return () \<and>
      trace (snd (write_to_device wenv dev key r state)) =
        trace r @ [AcquireLock] @ (if client_is_connected r then [] else [Connect]) @
        [WriteGattChar (wire (build_setter_command dev key (PBool state))), Sleep 5] @
        (if persistent_conn r then [] else [Disconnect]) @ [ReleaseLock, RequestRefresh]) \<and>
   notify_future (snd (write_to_device wenv dev key r state)) = notify_future r \<and>
   current_command (snd (write_to_device wenv dev key r state)) = current_command r \<and>
   notify_response (snd (write_to_device wenv dev key r state)) = notify_response r \<and>
   (\<exists>mid post. trace (snd (write_to_device wenv dev key r state)) =
        trace r @ [AcquireLock] @ mid @ [ReleaseLock] @ post \<and>
      set mid \<subseteq> {Connect, WriteGattChar (wire (build_setter_command dev key (PBool state))),
                 Sleep 5, Log Error ''Timed out for device'', Log Error ''Bleak error'',
                 Disconnect} \<and>
      (post = [] \<or> post = [RequestRefresh]))"
proof -
  let ?cmd = "build_setter_command dev key (PBool state)"
  let ?r1 = "emit [AcquireLock] r"
  obtain res r2 where b: "write_to_device_body wenv ?cmd ?r1 = (res, r2)"
    by (cases "write_to_device_body wenv ?cmd ?r1")
  from write_body_effects[of wenv ?cmd ?r1] b
  obtain es where es: "trace r2 = trace r @ [AcquireLock] @ es"
      "set es \<subseteq> {Connect, WriteGattChar (wire ?cmd), Sleep 5}"
    by (auto simp: emit_def)
  from write_body_fields[of wenv ?cmd ?r1] b
  have f2: "notify_future r2 = notify_future r" "current_command r2 = current_command r"
      "notify_response r2 = notify_response r" "persistent_conn r2 = persistent_conn r"
    by (simp_all add: emit_def)
  from write_to_device_unfold[OF b]
  obtain ret lg where lg: "set lg \<subseteq> {Log Error ''Timed out for device'', Log Error ''Bleak error''}"
    and calm: "res = Return () \<longrightarrow> lg = [] \<and> ret = Return False"
    and w: "write_to_device wenv dev key r state =
             (let (fin, r4) = write_to_device_finally wenv (emit lg r2);
                  r5 = emit [ReleaseLock] r4
              in case fin of
                   Raise e \<Rightarrow> (Raise e, r5)
                 | Return u \<Rightarrow>
                     (case ret of
                        Raise e \<Rightarrow> (Raise e, r5)
                      | Return returned \<Rightarrow>
                          if returned then (Return (), r5)
                          else (Return (), emit [RequestRefresh] r5)))"
    by blast
  let ?r3 = "emit lg r2"
  obtain fin r4 where fn: "write_to_device_finally wenv ?r3 = (fin, r4)"
    by (cases "write_to_device_finally wenv ?r3")
  let ?td = "if persistent_conn r then [] else [Disconnect]"
  from write_finally_cases[of wenv ?r3] fn f2
  have t4: "trace r4 = trace r @ [AcquireLock] @ es @ lg @ ?td"
    and f4: "notify_future r4 = notify_future r" "current_command r4 = current_command r"
      "notify_response r4 = notify_response r"
    and ok4: "persistent_conn r \<or> w_disconnect wenv = Ok \<longrightarrow> fin = Return ()"
    by (simp_all add: emit_def es(1))
  let ?W = "write_to_device wenv dev key r state"
  have wcases: "snd ?W = emit [ReleaseLock] r4 \<or> snd ?W = emit [RequestRefresh] (emit [ReleaseLock] r4)"
    by (simp add: w fn Let_def split: outcome.splits)
  have fields: "notify_future (snd ?W) = notify_future r \<and>
      current_command (snd ?W) = current_command r \<and> notify_response (snd ?W) = notify_response r"
    using wcases f4 by (auto simp: emit_def)
  have mid: "set (es @ lg @ ?td) \<subseteq> {Connect, WriteGattChar (wire ?cmd), Sleep 5,
                 Log Error ''Timed out for device'', Log Error ''Bleak error'', Disconnect}"
    using es(2) lg by auto
  have shape: "\<exists>mid post. trace (snd ?W) = trace r @ [AcquireLock] @ mid @ [ReleaseLock] @ post \<and>
      set mid \<subseteq> {Connect, WriteGattChar (wire ?cmd), Sleep 5,
                 Log Error ''Timed out for device'', Log Error ''Bleak error'', Disconnect} \<and>
      (post = [] \<or> post = [RequestRefresh])"
    using wcases
  proof
    assume "snd ?W = emit [ReleaseLock] r4"
    then have "trace (snd ?W) = trace r @ [AcquireLock] @ (es @ lg @ ?td) @ [ReleaseLock] @ []"
      by (simp add: emit_def t4)
    with mid show ?thesis by blast
  next
    assume "snd ?W = emit [RequestRefresh] (emit [ReleaseLock] r4)"
    then have "trace (snd ?W) =
        trace r @ [AcquireLock] @ (es @ lg @ ?td) @ [ReleaseLock] @ [RequestRefresh]"
      by (simp add: emit_def t4)
    with mid show ?thesis by blast
  qed
  have seq: "w_connect wenv = Ok \<and> w_write wenv = Ok \<and> w_sleep wenv = Slept \<and> w_disconnect wenv = Ok \<longrightarrow>
      fst ?W = Return () \<and>
      trace (snd ?W) =
        trace r @ [AcquireLock] @ (if client_is_connected r then [] else [Connect]) @
        [WriteGattChar (wire ?cmd), Sleep 5] @ ?td @ [ReleaseLock, RequestRefresh]"
  proof
    assume h: "w_connect wenv = Ok \<and> w_write wenv = Ok \<and> w_sleep wenv = Slept \<and> w_disconnect wenv = Ok"
    from write_body_calm[of wenv ?cmd ?r1] h b
    have r: "res = Return ()"
      and t2: "trace r2 = trace r @ [AcquireLock] @ (if client_is_connected r then [] else [Connect]) @
           [WriteGattChar (wire ?cmd), Sleep 5]"
      by (simp_all add: emit_def)
    from calm r have l: "lg = []" "ret = Return False" by simp_all
    from ok4 h have fr: "fin = Return ()" by simp
    from t4 es(1) t2 l have t4': "trace r4 = trace r @ [AcquireLock] @
           (if client_is_connected r then [] else [Connect]) @
           [WriteGattChar (wire ?cmd), Sleep 5] @ ?td"
      by simp
    show "fst ?W = Return () \<and>
      trace (snd ?W) =
        trace r @ [AcquireLock] @ (if client_is_connected r then [] else [Connect]) @
        [WriteGattChar (wire ?cmd), Sleep 5] @ ?td @ [ReleaseLock, RequestRefresh]"
    proof -
      from fn l have fn0: "write_to_device_finally wenv r2 = (fin, r4)"
        by (simp add: emit_def)
      show ?thesis
        by (simp add: w fn0 fr l Let_def emit_def t4')
    qed
  qed
  show ?thesis using seq fields shape by blast
qed

theorem write_to_device_sequence_witness:
  "fst (write_to_device calm_write_env sample_device ''ac_output_on'' sample_reader True) = Return () \<and>
   trace (snd (write_to_device calm_write_env sample_device ''ac_output_on'' sample_reader True)) =
     [AcquireLock, Connect, WriteGattChar [1, 6, 1], Sleep 5, Disconnect, ReleaseLock, RequestRefresh] \<and>
   notify_future (snd (write_to_device calm_write_env sample_device ''ac_output_on'' sample_reader True))
     = None"
proof -
  have h: "w_connect calm_write_env = Ok \<and> w_write calm_write_env = Ok \<and>
           w_sleep calm_write_env = Slept \<and> w_disconnect calm_write_env = Ok"
    by (simp add: calm_write_env_def)
  from write_to_device_sequence[of calm_write_env sample_device "''ac_output_on''" sample_reader True] h
  show ?thesis
    by (simp add: sample_reader_def sample_device_def sample_setter_def)
qed

text \<open>
  Claim C10. Once the guard on a persistent, unconnected client has passed, an update
  leaves the binary sensor, and likewise the button, available exactly when the
  coordinator's data is a dict that holds a boolean under the entity's key; the
  on-state is then that boolean; a missing key, a \<^verbatim>\<open>None\<close> and a value of another
  type make the entity unavailable, and no case raises.
\<close>

theorem coordinator_update_availability:
  assumes guard: "\<not> (persistent \<and> \<not> connected)"
  shows "attr_available (binary_sensor_handle_coordinator_update persistent connected data ent) =
           (\<exists>d b. data = Dict d \<and> d (response_key ent) = Some (PBool b)) \<and>
         (\<forall>d b. data = Dict d \<and> d (response_key ent) = Some (PBool b) \<longrightarrow>
            attr_is_on (binary_sensor_handle_coordinator_update persistent connected data ent) = Some b) \<and>
         attr_available (button_handle_coordinator_update persistent connected data ent) =
           (\<exists>d b. data = Dict d \<and> d (response_key ent) = Some (PBool b)) \<and>
         (\<forall>d b. data = Dict d \<and> d (response_key ent) = Some (PBool b) \<longrightarrow>
            attr_is_on (button_handle_coordinator_update persistent connected data ent) = Some b)"
proof (cases data)
  case NotADict
  then show ?thesis using guard
    by (auto simp: binary_sensor_handle_coordinator_update_def button_handle_coordinator_update_def)
next
  case (Dict d)
  show ?thesis
  proof (cases "d (response_key ent)")
    case None
    then show ?thesis using guard Dict
      by (auto simp: binary_sensor_handle_coordinator_update_def button_handle_coordinator_update_def)
  next
    case (Some v)
    then show ?thesis using guard Dict
      by (cases v)
         (auto simp: binary_sensor_handle_coordinator_update_def
            button_handle_coordinator_update_def)
  qed
qed

theorem coordinator_update_availability_witness:
  "attr_available (binary_sensor_handle_coordinator_update False False
      (Dict [''ac_output_on'' \<mapsto> PBool True]) sample_entity) \<and>
   attr_is_on (button_handle_coordinator_update False False
      (Dict [''ac_output_on'' \<mapsto> PBool True]) sample_entity) = Some True \<and>
   \<not> attr_available (binary_sensor_handle_coordinator_update False False
      (Dict [''ac_output_on'' \<mapsto> PInt 1]) sample_entity) \<and>
   \<not> attr_available (button_handle_coordinator_update False False NotADict sample_entity)"
proof -
  have g: "\<not> (False \<and> \<not> False)" by simp
  have k: "response_key sample_entity = ''ac_output_on''" by (simp add: sample_entity_def)
  from coordinator_update_availability[OF g, of "Dict [''ac_output_on'' \<mapsto> PBool True]" sample_entity]
       coordinator_update_availability[OF g, of "Dict [''ac_output_on'' \<mapsto> PInt 1]" sample_entity]
       coordinator_update_availability[OF g, of NotADict sample_entity]
  show ?thesis by (auto simp: k)
qed

section \<open>Properties of the polling orchestrator\<close>

lemma store_fold_hit:
  assumes F: "\<And>key value m. F (key, value) m = m(key @ s \<mapsto> value)"
  shows "fold F items pd (k @ s) =
     (case map_of (rev items) k of None \<Rightarrow> pd (k @ s) | Some v \<Rightarrow> Some v)"
proof (induction items arbitrary: pd)
  case Nil
  then show ?case by simp
next
  case (Cons kv items)
  obtain a b where kv: "kv = (a, b)" by (cases kv)
  have "fold F (kv # items) pd (k @ s) = fold F items (pd(a @ s \<mapsto> b)) (k @ s)"
    by (simp add: kv F)
  also have "\<dots> = (case map_of (rev items) k of
                     None \<Rightarrow> (pd(a @ s \<mapsto> b)) (k @ s) | Some v \<Rightarrow> Some v)"
    by (rule Cons.IH)
  also have "\<dots> = (case map_of (rev (kv # items)) k of
                     None \<Rightarrow> pd (k @ s) | Some v \<Rightarrow> Some v)"
    by (simp add: kv map_add_def split: option.splits)
  finally show ?case .
qed

lemma store_fold_miss:
  assumes F: "\<And>key value m. F (key, value) m = m(key @ s \<mapsto> value)"
  shows "k' \<notin> (\<lambda>k. k @ s) ` fst ` set items \<Longrightarrow> fold F items pd k' = pd k'"
proof (induction items arbitrary: pd)
  case Nil
  then show ?case by simp
next
  case (Cons kv items)
  obtain a b where kv: "kv = (a, b)" by (cases kv)
  from Cons.prems have ne: "k' \<noteq> a @ s" and rest: "k' \<notin> (\<lambda>k. k @ s) ` fst ` set items"
    by (auto simp: kv)
  have "fold F (kv # items) pd k' = fold F items (pd(a @ s \<mapsto> b)) k'"
    by (simp add: kv F)
  also have "\<dots> = (pd(a @ s \<mapsto> b)) k'"
    by (rule Cons.IH[OF rest])
  also have "\<dots> = pd k'"
    using ne by simp
  finally show ?case .
qed

lemma suffixed_fold_hit:
  "fold (\<lambda>(key, value) m. m(key @ s \<mapsto> value)) items pd (k @ s) =
     (case map_of (rev items) k of None \<Rightarrow> pd (k @ s) | Some v \<Rightarrow> Some v)"
  by (rule store_fold_hit) simp

lemma suffixed_fold_miss:
  "k' \<notin> (\<lambda>k. k @ s) ` fst ` set items \<Longrightarrow>
   fold (\<lambda>(key, value) m. m(key @ s \<mapsto> value)) items pd k' = pd k'"
  by (rule store_fold_miss) simp_all

lemma str_nat_digit: "str_nat 1 = ''1'' \<and> str_nat 2 = ''2'' \<and> str_nat 3 = ''3''"
  by code_simp

lemma dict_get_absent:
  "key \<notin> fst ` set items \<Longrightarrow> dict_get items key = PNone"
proof -
  assume "key \<notin> fst ` set items"
  then have "key \<notin> fst ` set (rev items)" by simp
  then have "map_of (rev items) key = None" by (simp add: map_of_eq_None_iff)
  then show ?thesis by (simp add: dict_get_def)
qed

text \<open>
  Claim C6. A pack command has been answered for the pack \<open>p\<close> and its answer decoded.
  If the decoded \<^verbatim>\<open>pack_num\<close> is absent, is not an integer (nor a boolean, which
  Python counts among the integers), or is an integer other than \<open>p\<close>, the step
  leaves the result map as it was. If it is \<open>p\<close>, every decoded
  field is stored under its key followed by the decimal digits of \<open>p\<close>, and no other
  key of the result map changes, so nothing is stored under a bare key.
\<close>

theorem pack_fields_keyed_by_pack:
  assumes send: "async_send_command r c sc = (Return res, r1)"
    and parsed: "parsed = parse dev (starting_address c) (parse_response c res)"
  shows "(''pack_num'' \<notin> fst ` set parsed \<or>
          ((\<forall>n. dict_get parsed ''pack_num'' \<noteq> PInt n) \<and>
           (\<forall>b. dict_get parsed ''pack_num'' \<noteq> PBool b)) \<or>
          (\<exists>n. dict_get parsed ''pack_num'' = PInt n \<and> n \<noteq> int p) \<longrightarrow>
            poll_pack_command dev p r c sc pd = (Return (), r1, pd)) \<and>
         (dict_get parsed ''pack_num'' = PInt (int p) \<longrightarrow>
            (\<exists>pd'. poll_pack_command dev p r c sc pd = (Return (), r1, pd') \<and>
               (\<forall>k v. map_of (rev parsed) k = Some v \<longrightarrow> pd' (k @ str_nat p) = Some v) \<and>
               (\<forall>k'. k' \<notin> (\<lambda>k. k @ str_nat p) ` fst ` set parsed \<longrightarrow> pd' k' = pd k')))"
proof -
  let ?v = "dict_get parsed ''pack_num''"
  have skip: "\<not> isinstance_int ?v \<or> int_value ?v \<noteq> int p \<Longrightarrow>
      poll_pack_command dev p r c sc pd = (Return (), r1, pd)"
    using send parsed by (simp add: poll_pack_command_def Let_def)
  have a: "''pack_num'' \<notin> fst ` set parsed \<Longrightarrow> \<not> isinstance_int ?v"
    by (simp add: dict_get_absent)
  have b: "(\<forall>n. ?v \<noteq> PInt n) \<and> (\<forall>b. ?v \<noteq> PBool b) \<Longrightarrow> \<not> isinstance_int ?v"
    by (cases ?v) auto
  have c: "\<exists>n. ?v = PInt n \<and> n \<noteq> int p \<Longrightarrow> int_value ?v \<noteq> int p"
    by auto
  have mismatch: "''pack_num'' \<notin> fst ` set parsed \<or>
          ((\<forall>n. ?v \<noteq> PInt n) \<and> (\<forall>b. ?v \<noteq> PBool b)) \<or>
          (\<exists>n. ?v = PInt n \<and> n \<noteq> int p) \<longrightarrow>
            poll_pack_command dev p r c sc pd = (Return (), r1, pd)"
    using skip a b c by blast
  let ?pd' = "fold (\<lambda>(key, value) m. m(key @ str_nat p \<mapsto> value)) parsed pd"
  have match: "?v = PInt (int p) \<longrightarrow>
            (\<exists>pd'. poll_pack_command dev p r c sc pd = (Return (), r1, pd') \<and>
               (\<forall>k v. map_of (rev parsed) k = Some v \<longrightarrow> pd' (k @ str_nat p) = Some v) \<and>
               (\<forall>k'. k' \<notin> (\<lambda>k. k @ str_nat p) ` fst ` set parsed \<longrightarrow> pd' k' = pd k'))"
  proof
    assume v: "?v = PInt (int p)"
    have run: "poll_pack_command dev p r c sc pd = (Return (), r1, ?pd')"
      using send parsed v by (simp add: poll_pack_command_def Let_def)
    have hit: "\<forall>k v. map_of (rev parsed) k = Some v \<longrightarrow> ?pd' (k @ str_nat p) = Some v"
      by (simp add: suffixed_fold_hit)
    have miss: "\<forall>k'. k' \<notin> (\<lambda>k. k @ str_nat p) ` fst ` set parsed \<longrightarrow> ?pd' k' = pd k'"
      by (simp add: suffixed_fold_miss)
    from run hit miss
    show "\<exists>pd'. poll_pack_command dev p r c sc pd = (Return (), r1, pd') \<and>
               (\<forall>k v. map_of (rev parsed) k = Some v \<longrightarrow> pd' (k @ str_nat p) = Some v) \<and>
               (\<forall>k'. k' \<notin> (\<lambda>k. k @ str_nat p) ` fst ` set parsed \<longrightarrow> pd' k' = pd k')"
      by blast
  qed
  show ?thesis using mismatch match by blast
qed

text \<open>
  Pack 2 answers with its own number: the voltage is stored under \<open>voltage2\<close> and
  not under \<open>voltage\<close>. Pack 2 answers with the number 1: nothing is stored. A whole
  poll of the three sample packs gives \<open>voltage1\<close>, \<open>voltage2\<close> and \<open>voltage3\<close>.
\<close>

theorem pack_fields_keyed_by_pack_witness:
  "snd (snd (poll_pack_command sample_device 2 sample_reader (sample_command 91 2)
      (answer [sample_pack_frame 2 52]) Map.empty)) ''voltage2'' = Some (PInt 52) \<and>
   snd (snd (poll_pack_command sample_device 2 sample_reader (sample_command 91 2)
      (answer [sample_pack_frame 2 52]) Map.empty)) ''voltage'' = None \<and>
   snd (snd (poll_pack_command sample_device 2 sample_reader (sample_command 91 2)
      (answer [sample_pack_frame 1 51]) Map.empty)) ''voltage2'' = None \<and>
   map (lookup_result (fst (read_data calm_env sample_reader None)))
      [''voltage'', ''voltage1'', ''voltage2'', ''voltage3''] =
     [None, Some (PInt 51), Some (PInt 52), Some (PInt 53)]"
proof -
  let ?c = "sample_command 91 2"
  let ?good = "answer [sample_pack_frame 2 52]"
  let ?stale = "answer [sample_pack_frame 1 51]"
  have fg: "fst (async_send_command sample_reader ?c ?good) = Return (sample_pack_frame 2 52)"
    by code_simp
  have fs: "fst (async_send_command sample_reader ?c ?stale) = Return (sample_pack_frame 1 51)"
    by code_simp
  have sg: "async_send_command sample_reader ?c ?good =
      (Return (sample_pack_frame 2 52), snd (async_send_command sample_reader ?c ?good))"
    using fg by (simp add: prod_eq_iff)
  have ss: "async_send_command sample_reader ?c ?stale =
      (Return (sample_pack_frame 1 51), snd (async_send_command sample_reader ?c ?stale))"
    using fs by (simp add: prod_eq_iff)
  have pg: "parse sample_device (starting_address ?c) (parse_response ?c (sample_pack_frame 2 52)) =
      [(''pack_num'', PInt 2), (''voltage'', PInt 52)]"
    by (simp add: sample_device_def sample_command_def sample_parse_def sample_pack_frame_def)
  have ps: "parse sample_device (starting_address ?c) (parse_response ?c (sample_pack_frame 1 51)) =
      [(''pack_num'', PInt 1), (''voltage'', PInt 51)]"
    by (simp add: sample_device_def sample_command_def sample_parse_def sample_pack_frame_def)
  have g: "dict_get [(''pack_num'', PInt 2), (''voltage'', PInt 52)] ''pack_num'' = PInt (int 2)"
    by (simp add: dict_get_def)
  have s: "\<exists>n. dict_get [(''pack_num'', PInt 1), (''voltage'', PInt 51)] ''pack_num'' = PInt n \<and> n \<noteq> int 2"
    by (simp add: dict_get_def)
  have v: "map_of (rev [(''pack_num'', PInt 2), (''voltage'', PInt 52)]) ''voltage'' = Some (PInt 52)"
    by simp
  have bare: "''voltage'' \<notin> (\<lambda>k. k @ str_nat 2) ` fst ` set [(''pack_num'', PInt 2), (''voltage'', PInt 52)]"
    by (simp add: str_nat_digit)
  have whole: "map (lookup_result (fst (read_data calm_env sample_reader None)))
      [''voltage'', ''voltage1'', ''voltage2'', ''voltage3''] =
     [None, Some (PInt 51), Some (PInt 52), Some (PInt 53)]"
    by code_simp
  from pack_fields_keyed_by_pack[OF sg pg[symmetric], of 2 Map.empty] g
  obtain pd' where run: "poll_pack_command sample_device 2 sample_reader ?c ?good Map.empty =
        (Return (), snd (async_send_command sample_reader ?c ?good), pd')"
    and hit: "\<forall>k v. map_of (rev [(''pack_num'', PInt 2), (''voltage'', PInt 52)]) k = Some v \<longrightarrow>
                pd' (k @ str_nat 2) = Some v"
    and miss: "\<forall>k'. k' \<notin> (\<lambda>k. k @ str_nat 2) ` fst ` set [(''pack_num'', PInt 2), (''voltage'', PInt 52)] \<longrightarrow>
                pd' k' = Map.empty k'"
    by blast
  from hit v have "pd' (''voltage'' @ str_nat 2) = Some (PInt 52)" by blast
  then have h: "pd' ''voltage2'' = Some (PInt 52)" by (simp add: str_nat_digit)
  from miss bare have m: "pd' ''voltage'' = None" by simp
  have one: "snd (snd (poll_pack_command sample_device 2 sample_reader ?c ?good Map.empty)) ''voltage2''
        = Some (PInt 52) \<and>
      snd (snd (poll_pack_command sample_device 2 sample_reader ?c ?good Map.empty)) ''voltage'' = None"
    using run h m by simp
  from pack_fields_keyed_by_pack[OF ss ps[symmetric], of 2 Map.empty] s
  have two: "snd (snd (poll_pack_command sample_device 2 sample_reader ?c ?stale Map.empty)) ''voltage2''
        = None"
    by simp
  show ?thesis using one two whole by simp
qed

section \<open>The outcome of an exchange does not depend on the reader\<close>










section \<open>The body of a poll makes no teardown call\<close>

lemma body_step_refl: "body_step r r"
  by (simp add: body_step_def only_emits_def)

lemma body_step_trans: "body_step r r' \<Longrightarrow> body_step r' r'' \<Longrightarrow> body_step r r''"
  by (auto simp: body_step_def only_emits_def)

lemma body_stepI:
  "trace r' = trace r @ es \<Longrightarrow> list_all body_effect es \<Longrightarrow>
   persistent_conn r' = persistent_conn r \<Longrightarrow> (has_notifier r \<longrightarrow> has_notifier r') \<Longrightarrow>
   body_step r r'"
  by (auto simp: body_step_def only_emits_def)

lemma handler_trace_cases:
  "trace (notification_handler r d) = trace r @ [] \<or>
   trace (notification_handler r d) = trace r @ [Log Warning ''Unexpected notification''] \<or>
   trace (notification_handler r d) = trace r @ [CallbackRaised]"
  by (simp add: notification_handler_def emit_def Let_def split: option.splits fut_state.splits)

lemma handler_flags:
  "persistent_conn (notification_handler r d) = persistent_conn r \<and>
   has_notifier (notification_handler r d) = has_notifier r"
  by (simp add: notification_handler_def emit_def Let_def split: option.splits fut_state.splits)

lemma body_step_handler: "body_step r (notification_handler r d)"
  using handler_trace_cases[of r d] handler_flags[of r d]
  by (elim disjE) (rule body_stepI, assumption, simp_all)+

lemma body_step_handler_fold: "body_step r (foldl notification_handler r ds)"
proof (induction ds arbitrary: r)
  case Nil
  show ?case by (simp add: body_step_refl)
next
  case (Cons d ds)
  from body_step_trans[OF body_step_handler[of r d] Cons.IH[of "notification_handler r d"]]
  show ?case by simp
qed

lemma body_step_wait_for: "body_step r (snd (wait_for r sc))"
proof -
  let ?r0 = "emit [WaitFor] r"
  let ?r1 = "foldl notification_handler ?r0 (arrivals sc)"
  have a: "body_step r ?r0"
    by (rule body_stepI[where es = "[WaitFor]"]) (simp_all add: emit_def)
  have b: "body_step r ?r1"
    by (rule body_step_trans[OF a body_step_handler_fold])
  have c: "body_step ?r1 (snd (wait_for r sc))"
    by (rule body_stepI[where es = "[]"])
       (simp_all add: wait_for_def Let_def split: option.splits fut_state.splits wait_end.splits)
  show ?thesis by (rule body_step_trans[OF b c])
qed

lemma body_step_send_except: "body_step r (snd (send_except e r))"
proof (cases e)
  case TimeoutError
  then show ?thesis
    by (intro body_stepI[where es = "[Log Warning ''Polling single command timed out'']"])
       (simp_all add: emit_def)
next
  case BleakError
  then show ?thesis
    by (intro body_stepI[where es = "[Log Warning ''Needed to disconnect due to error'']"])
       (simp_all add: emit_def)
next
  case (ModbusError x)
  then show ?thesis
    by (intro body_stepI[where es = "[Log Warning ''Got an invalid request error'']"])
       (simp_all add: emit_def)
next
  case BadConnectionError
  then show ?thesis
    by (intro body_stepI[where es = "[Log Warning ''Needed to disconnect due to error'']"])
       (simp_all add: emit_def)
qed (simp_all add: body_step_refl)

lemma body_step_send: "body_step r (snd (async_send_command r c sc))"
proof -
  let ?r2 = "emit [WriteGattChar (wire c)] (prepare_request r c)"
  let ?w = "case write_reply sc of Ok \<Rightarrow> wait_for ?r2 sc | Err e \<Rightarrow> (Raise e, ?r2)
            | Cancel \<Rightarrow> (Raise TimeoutCancelled, ?r2)"
  have a: "body_step r ?r2"
    by (rule body_stepI[where es = "[WriteGattChar (wire c)]"])
       (simp_all add: emit_def prepare_request_def)
  have b: "body_step ?r2 (snd ?w)"
    by (cases "write_reply sc") (simp_all add: body_step_wait_for body_step_refl)
  have u: "async_send_command r c sc =
             (case fst ?w of Return bs \<Rightarrow> (Return bs, snd ?w) | Raise e \<Rightarrow> send_except e (snd ?w))"
    by (simp add: async_send_command_def Let_def case_prod_beta)
  have c: "body_step (snd ?w) (snd (async_send_command r c sc))"
    by (cases "fst ?w") (simp_all add: u body_step_refl body_step_send_except)
  show ?thesis by (rule body_step_trans[OF body_step_trans[OF a b] c])
qed

lemma body_step_transport_call:
  "body_effect ef \<Longrightarrow> body_step r (snd (transport_call ef reply r))"
  by (cases reply)
     (auto simp: transport_call_def emit_def intro!: body_stepI[where es = "[ef]"])

lemma body_step_connected: "body_step r r' \<Longrightarrow> body_step r (r'\<lparr>client_is_connected := b\<rparr>)"
  by (simp add: body_step_def only_emits_def)

lemma body_step_connect_loop: "body_step r (snd (connect_loop env r attempts))"
proof (induction attempts arbitrary: r)
  case Nil
  show ?case by (simp add: body_step_refl)
next
  case (Cons a attempts)
  show ?case
  proof (cases "client_is_connected r")
    case True
    then show ?thesis by (simp add: body_step_refl)
  next
    case False
    obtain res r1 where t: "transport_call Connect (on_connect env a) r = (res, r1)"
      by (cases "transport_call Connect (on_connect env a) r")
    have s1: "body_step r r1"
      using body_step_transport_call[of Connect r "on_connect env a"] t by simp
    let ?r2 = "emit [Log Warning ''Connect unsucessful. Retrying...'', Sleep 2] r1"
    have s2: "body_step r1 ?r2"
      by (rule body_stepI[where es = "[Log Warning ''Connect unsucessful. Retrying...'', Sleep 2]"])
         (simp_all add: emit_def)
    have s12: "body_step r ?r2" by (rule body_step_trans[OF s1 s2])
    have s3: "body_step r (snd (connect_loop env ?r2 attempts))"
      by (rule body_step_trans[OF s12 Cons.IH])
    show ?thesis
      using False t s1 s12 s3
      by (cases res; cases "on_backoff env a")
         (simp_all add: body_step_connected)
  qed
qed

lemma body_step_attach: "body_step r (snd (attach_notifier env r))"
proof (cases "has_notifier r")
  case True
  then show ?thesis by (simp add: attach_notifier_def body_step_refl)
next
  case False
  obtain res r1 where t: "transport_call StartNotify (on_start_notify env) r = (res, r1)"
    by (cases "transport_call StartNotify (on_start_notify env) r")
  have s1: "body_step r r1"
    using body_step_transport_call[of StartNotify r "on_start_notify env"] t by simp
  then have "body_step r (r1\<lparr>has_notifier := True\<rparr>)"
    by (simp add: body_step_def only_emits_def)
  with s1 False t show ?thesis
    by (cases res) (simp_all add: attach_notifier_def)
qed

section \<open>The polling loops\<close>

lemma emit_nil: "emit [] r = r"
  by (simp add: emit_def)





lemma poll_command_send:
  assumes "async_send_command r c sc = (res, r1)"
  shows "poll_command dev r c sc pd =
           (case res of
              Return bs \<Rightarrow>
                (Return (), r1, dict_update pd (parse dev (starting_address c) (parse_response c bs)))
            | Raise e \<Rightarrow>
                if e = ParseError
                then (Return (), emit [Log Warning ''Got a parse exception''] r1, pd)
                else (Raise e, r1, pd))"
  using assms by (simp add: poll_command_def Let_def split: outcome.splits)

lemma body_step_poll_command: "body_step r (fst (snd (poll_command dev r c sc pd)))"
proof -
  obtain res r1 where s: "async_send_command r c sc = (res, r1)"
    by (cases "async_send_command r c sc")
  have a: "body_step r r1"
    using body_step_send[of r c sc] s by simp
  have b: "body_step r1 (emit [Log Warning ''Got a parse exception''] r1)"
    by (rule body_stepI[where es = "[Log Warning ''Got a parse exception'']"])
       (simp_all add: emit_def)
  show ?thesis
    using a body_step_trans[OF a b]
    by (cases res) (simp_all add: poll_command_send[OF s])
qed



lemma body_step_poll_commands:
  "body_step r (fst (snd (poll_commands scripts dev r i cs pd)))"
proof (induction cs arbitrary: r i pd)
  case Nil
  show ?case by (simp add: body_step_refl)
next
  case (Cons c cs)
  obtain res r1 pd1 where p: "poll_command dev r c (scripts i) pd = (res, r1, pd1)"
    by (cases "poll_command dev r c (scripts i) pd") auto
  have a: "body_step r r1"
    using body_step_poll_command[of r dev c "scripts i" pd] p by simp
  show ?case
    using a body_step_trans[OF a Cons.IH[of r1 "Suc i" pd1]]
    by (cases res) (simp_all add: p)
qed




section \<open>The stages of a poll\<close>

lemma trace_emit: "trace (emit es r) = trace r @ es"
  by (simp add: emit_def)



lemma body_step_read_data_body_no_packs:
  "body_step r (fst (snd (read_data_body env dev r cmds [])))"
proof -
  obtain c r1 where cl: "connect_loop env r [1..<Suc (max_retries r)] = (c, r1)"
    by (cases "connect_loop env r [1..<Suc (max_retries r)]")
  obtain a r2 where at: "attach_notifier env r1 = (a, r2)"
    by (cases "attach_notifier env r1")
  have s1: "body_step r r1"
    using body_step_connect_loop[of r env "[1..<Suc (max_retries r)]"] cl by (simp del: upt_Suc)
  have s2: "body_step r r2"
    using body_step_trans[OF s1 body_step_attach[of r1 env]] at by simp
  have s3: "body_step r (fst (snd (poll_commands (on_main env) dev r2 0 cmds Map.empty)))"
    by (rule body_step_trans[OF s2 body_step_poll_commands])
  have u: "read_data_body env dev r cmds [] =
      (case c of
         Raise e \<Rightarrow> (Raise e, r1, Map.empty)
       | Return u \<Rightarrow>
           (case a of
              Raise e \<Rightarrow> (Raise e, r2, Map.empty)
            | Return u \<Rightarrow>
                (case poll_commands (on_main env) dev r2 0 cmds Map.empty of
                   (Raise e, r3, parsed_data) \<Rightarrow> (Raise e, r3, parsed_data)
                 | (Return u, r3, parsed_data) \<Rightarrow> (Return (), r3, parsed_data))))"
  proof -
    obtain p r3 pd where pc: "poll_commands (on_main env) dev r2 0 cmds Map.empty = (p, r3, pd)"
      by (cases "poll_commands (on_main env) dev r2 0 cmds Map.empty") auto
    show ?thesis
      unfolding read_data_body_def cl by (simp add: at pc split: outcome.splits)
  qed
  show ?thesis
    using s1 s2 s3
    by (cases c; cases a)
       (simp_all add: u case_prod_beta split: outcome.splits)
qed


lemma read_data_except_cases:
  "fst (read_data_except res pd r) =
     (case res of
        Return u \<Rightarrow> Return (Some pd)
      | Raise e \<Rightarrow>
          if e = TimeoutError \<or> e = TimeoutCancelled \<or> e = BleakError then Return None
          else Raise e)"
  by (simp add: read_data_except_def timeout_scope_def split: outcome.splits)


lemma read_data_finally_persistent:
  "persistent_conn r \<Longrightarrow> read_data_finally env r = (Return (), r)"
  by (simp add: read_data_finally_def)

lemma read_data_finally_trace:
  "\<not> persistent_conn r \<Longrightarrow>
   trace (snd (read_data_finally env r)) =
     trace r @ (if has_notifier r then [StopNotify] else []) @
     (if has_notifier r \<and> on_stop_notify env \<noteq> Ok then [] else [Disconnect])"
  by (cases "on_stop_notify env"; cases "on_disconnect env")
     (simp_all add: read_data_finally_def transport_call_def emit_def)

lemma read_data_finally_returns:
  "persistent_conn r \<or> (on_stop_notify env = Ok \<and> on_disconnect env = Ok) \<Longrightarrow>
   fst (read_data_finally env r) = Return ()"
  by (auto simp: read_data_finally_def transport_call_def)

lemma read_data_finally_flag:
  "\<not> persistent_conn r \<Longrightarrow> on_stop_notify env = Ok \<Longrightarrow>
   \<not> has_notifier (snd (read_data_finally env r))"
  by (cases "on_disconnect env")
     (simp_all add: read_data_finally_def transport_call_def emit_def)

lemma read_data_unfold:
  assumes dev: "bluetti_device r = Some dev"
    and body: "read_data_body env dev (emit [AcquireLock] (emit [Log Info ''Reading data''] r))
                 (case filt of None \<Rightarrow> polling_commands dev | Some f \<Rightarrow> f)
                 (case filt of None \<Rightarrow> pack_polling_commands dev | Some f \<Rightarrow> []) = (res, rb, pd)"
  shows "read_data env r filt =
           (case fst (read_data_finally env (snd (read_data_except res pd rb))) of
              Raise e \<Rightarrow> Raise e
            | Return u \<Rightarrow> fst (read_data_except res pd rb),
            emit [ReleaseLock] (snd (read_data_finally env (snd (read_data_except res pd rb)))))"
proof -
  have d: "bluetti_device (emit [Log Info ''Reading data''] r) = Some dev"
    using dev by (simp add: emit_def)
  show ?thesis
    by (simp add: read_data_def d body Let_def case_prod_beta split: outcome.splits)
qed

lemma read_data_no_device:
  "bluetti_device r = None \<Longrightarrow>
   read_data env r filt = (Return None, emit [Log Info ''Reading data'', Log Error ''Device is None''] r)"
  by (simp add: read_data_def Let_def emit_def)


lemma read_data_body_connect_fails:
  assumes nc: "\<not> client_is_connected r"
    and mr: "1 \<le> max_retries r"
    and f: "on_connect env 1 = Err e"
  shows "read_data_body env dev r cmds packs = (Raise e, emit [Connect] r, Map.empty)"
proof -
  have "connect_loop env r [1..<Suc (max_retries r)] = (Raise e, emit [Connect] r)"
    using connect_loop_first_attempt[OF nc mr, of env] f by simp
  then show ?thesis
    unfolding read_data_body_def by simp
qed

text \<open>
  Claim C2. A poll whose reader has a device, is not connected and has
  \<open>max_retries\<close> at least 2. When the first connect fails with an exception \<open>e\<close>
  that \<^verbatim>\<open>except Exception\<close> catches, the failure is raised at once and the poll is
  aborted: after the one connect call nothing follows but the error log of
  \<^verbatim>\<open>read_data\<close>, the teardown and the release of the lock, no map is returned, and
  when the teardown returns the result is \<open>None\<close> for a \<open>TimeoutError\<close> or a
  \<open>BleakError\<close> and the exception itself otherwise. A first connect that returns
  stops the loop. So the loop of \<^verbatim>\<open>read_data\<close> makes one connect call and its
  remaining attempts are never reached. For the loop at any attempt \<open>a\<close>, with the
  attempts \<open>rest\<close> to follow: a failure is raised at once when \<open>a\<close> is 1 or
  \<open>max_retries\<close>; when \<open>a\<close> lies strictly between, it is logged as a warning,
  the loop sleeps two seconds and goes on with the remaining attempts; a connect that
  returns ends the loop.
\<close>

theorem connect_retry_policy:
  assumes dev: "bluetti_device r = Some dev"
    and nc: "\<not> client_is_connected r"
    and mr: "2 \<le> max_retries r"
    and ex: "e \<noteq> CancelledError" "e \<noteq> TimeoutCancelled"
  shows "(on_connect env 1 = Err e \<longrightarrow>
            trace (snd (read_data env r filt)) =
              trace r @ [Log Info ''Reading data'', AcquireLock, Connect] @
              (if e = TimeoutError then [Log Error ''Polling timed out'']
               else if e = BleakError then [Log Error ''Bleak error''] else []) @
              (if persistent_conn r then []
               else (if has_notifier r then [StopNotify] else []) @
                    (if has_notifier r \<and> on_stop_notify env \<noteq> Ok then [] else [Disconnect])) @
              [ReleaseLock] \<and>
            (\<forall>m. fst (read_data env r filt) \<noteq> Return (Some m)) \<and>
            (persistent_conn r \<or> (on_stop_notify env = Ok \<and> on_disconnect env = Ok) \<longrightarrow>
               fst (read_data env r filt) =
                 (if e = TimeoutError \<or> e = BleakError then Return None else Raise e))) \<and>
         connect_loop env r [1..<Suc (max_retries r)] =
           (case on_connect env 1 of
              Ok \<Rightarrow> (Return (), (emit [Connect] r)\<lparr>client_is_connected := True\<rparr>)
            | Err x \<Rightarrow> (Raise x, emit [Connect] r)
            | Cancel \<Rightarrow> (Raise TimeoutCancelled, emit [Connect] r)) \<and>
         (on_connect env a = Err e \<and> (a = 1 \<or> a = max_retries r) \<longrightarrow>
            connect_loop env r (a # rest) = (Raise e, emit [Connect] r)) \<and>
         (on_connect env a = Err e \<and> 1 < a \<and> a < max_retries r \<and> on_backoff env a = Slept \<longrightarrow>
            connect_loop env r (a # rest) =
              connect_loop env
                (emit [Connect, Log Warning ''Connect unsucessful. Retrying...'', Sleep 2] r) rest) \<and>
         (on_connect env a = Ok \<longrightarrow>
            connect_loop env r (a # rest) =
              (Return (), (emit [Connect] r)\<lparr>client_is_connected := True\<rparr>))"
proof -
  have m1: "1 \<le> max_retries r" using mr by simp
  let ?r1 = "emit [AcquireLock] (emit [Log Info ''Reading data''] r)"
  let ?cmds = "case filt of None \<Rightarrow> polling_commands dev | Some f \<Rightarrow> f"
  let ?packs = "case filt of None \<Rightarrow> pack_polling_commands dev | Some f \<Rightarrow> []"
  let ?lg = "if e = TimeoutError then [Log Error ''Polling timed out'']
               else if e = BleakError then [Log Error ''Bleak error''] else []"
  let ?td = "if persistent_conn r then []
               else (if has_notifier r then [StopNotify] else []) @
                    (if has_notifier r \<and> on_stop_notify env \<noteq> Ok then [] else [Disconnect])"
  have abort: "on_connect env 1 = Err e \<longrightarrow>
            trace (snd (read_data env r filt)) =
              trace r @ [Log Info ''Reading data'', AcquireLock, Connect] @ ?lg @ ?td @ [ReleaseLock] \<and>
            (\<forall>m. fst (read_data env r filt) \<noteq> Return (Some m)) \<and>
            (persistent_conn r \<or> (on_stop_notify env = Ok \<and> on_disconnect env = Ok) \<longrightarrow>
               fst (read_data env r filt) =
                 (if e = TimeoutError \<or> e = BleakError then Return None else Raise e))"
  proof
    assume f: "on_connect env 1 = Err e"
    have nc1: "\<not> client_is_connected ?r1" using nc by (simp add: emit_def)
    have mr1: "1 \<le> max_retries ?r1" using m1 by (simp add: emit_def)
    let ?rb = "emit [Connect] ?r1"
    have body: "read_data_body env dev ?r1 ?cmds ?packs = (Raise e, ?rb, Map.empty)"
      by (rule read_data_body_connect_fails[OF nc1 mr1 f])
    note u = read_data_unfold[OF dev body]
    let ?x = "read_data_except (Raise e) Map.empty ?rb"
    have xf: "fst ?x = (if e = TimeoutError \<or> e = BleakError then Return None else Raise e)"
      using ex by (simp add: read_data_except_cases)
    have xs: "snd ?x = emit ?lg ?rb"
      using ex by (simp add: read_data_except_def timeout_scope_def emit_nil)
    let ?r3 = "emit ?lg ?rb"
    have flags: "persistent_conn ?r3 = persistent_conn r" "has_notifier ?r3 = has_notifier r"
      by (simp_all add: emit_def)
    have t3: "trace ?r3 = trace r @ [Log Info ''Reading data'', AcquireLock, Connect] @ ?lg"
      by (simp add: emit_def)
    have t4: "trace (snd (read_data_finally env ?r3)) = trace ?r3 @ ?td"
    proof (cases "persistent_conn r")
      case True
      then show ?thesis using flags by (simp add: read_data_finally_persistent)
    next
      case False
      then have "\<not> persistent_conn ?r3" using flags by simp
      from read_data_finally_trace[OF this, of env] False flags show ?thesis by simp
    qed
    have tr: "trace (snd (read_data env r filt)) =
              trace r @ [Log Info ''Reading data'', AcquireLock, Connect] @ ?lg @ ?td @ [ReleaseLock]"
      by (simp only: u xs snd_conv trace_emit t4) simp
    have nomap: "\<forall>m. fst (read_data env r filt) \<noteq> Return (Some m)"
      by (simp only: u xs xf fst_conv) (simp split: outcome.splits)
    have res: "persistent_conn r \<or> (on_stop_notify env = Ok \<and> on_disconnect env = Ok) \<longrightarrow>
               fst (read_data env r filt) =
                 (if e = TimeoutError \<or> e = BleakError then Return None else Raise e)"
    proof
      assume "persistent_conn r \<or> (on_stop_notify env = Ok \<and> on_disconnect env = Ok)"
      then have "persistent_conn ?r3 \<or> (on_stop_notify env = Ok \<and> on_disconnect env = Ok)"
        using flags by simp
      from read_data_finally_returns[OF this]
      show "fst (read_data env r filt) =
                 (if e = TimeoutError \<or> e = BleakError then Return None else Raise e)"
        by (simp only: u xs xf fst_conv) simp
    qed
    show "trace (snd (read_data env r filt)) =
              trace r @ [Log Info ''Reading data'', AcquireLock, Connect] @ ?lg @ ?td @ [ReleaseLock] \<and>
            (\<forall>m. fst (read_data env r filt) \<noteq> Return (Some m)) \<and>
            (persistent_conn r \<or> (on_stop_notify env = Ok \<and> on_disconnect env = Ok) \<longrightarrow>
               fst (read_data env r filt) =
                 (if e = TimeoutError \<or> e = BleakError then Return None else Raise e))"
      using tr nomap res by blast
  qed
  note first = connect_loop_first_attempt[OF nc m1, of env]
  note pol = connect_loop_policy[OF nc ex, of env a rest]
  show ?thesis using abort first pol by blast
qed


text \<open>
  The first connect of a poll fails with a \<open>BleakError\<close>: the poll returns
  \<open>None\<close> after one connect call, the error log and the teardown. And the loop
  body alone, at attempt 2 of five: the failure is logged and followed by the sleep,
  and attempt 3 connects.
\<close>

theorem connect_retry_policy_witness:
  "fst (read_data flaky_env sample_reader None) = Return None \<and>
   trace (snd (read_data flaky_env sample_reader None)) =
     [Log Info ''Reading data'', AcquireLock, Connect, Log Error ''Bleak error'',
      Disconnect, ReleaseLock] \<and>
   fst (connect_loop flaky_env sample_reader [1..<Suc (max_retries sample_reader)]) =
     Raise BleakError \<and>
   fst (connect_loop flaky_env sample_reader [2, 3]) = Return () \<and>
   trace (snd (connect_loop flaky_env sample_reader [2, 3])) =
     [Connect, Log Warning ''Connect unsucessful. Retrying...'', Sleep 2, Connect]"
proof -
  have dev: "bluetti_device sample_reader = Some sample_device"
    by (simp add: sample_reader_def)
  have nc: "\<not> client_is_connected sample_reader"
    by (simp add: sample_reader_def)
  have mr: "2 \<le> max_retries sample_reader"
    by (simp add: sample_reader_def)
  have ex: "BleakError \<noteq> CancelledError" "BleakError \<noteq> TimeoutCancelled"
    by simp_all
  have c1: "on_connect flaky_env 1 = Err BleakError"
    by (simp add: flaky_env_def calm_env_def)
  have c2: "on_connect flaky_env 2 = Err BleakError \<and> (1::nat) < 2 \<and>
            2 < max_retries sample_reader \<and> on_backoff flaky_env 2 = Slept"
    by (simp add: flaky_env_def calm_env_def sample_reader_def)
  have td: "on_stop_notify flaky_env = Ok \<and> on_disconnect flaky_env = Ok"
    by (simp add: flaky_env_def calm_env_def)
  have fl: "\<not> persistent_conn sample_reader" "\<not> has_notifier sample_reader"
      "trace sample_reader = []"
    by (simp_all add: sample_reader_def)
  have e3: "fst (connect_loop flaky_env
              (emit [Connect, Log Warning ''Connect unsucessful. Retrying...'', Sleep 2]
                 sample_reader) [3]) = Return () \<and>
           trace (snd (connect_loop flaky_env
              (emit [Connect, Log Warning ''Connect unsucessful. Retrying...'', Sleep 2]
                 sample_reader) [3])) =
             [Connect, Log Warning ''Connect unsucessful. Retrying...'', Sleep 2, Connect]"
    by code_simp
  from connect_retry_policy[OF dev nc mr ex, where env = flaky_env and filt = None
      and a = 2 and rest = "[3]"] c1 c2 td fl e3
  show ?thesis by simp
qed

section \<open>A poll with one corrupted answer\<close>






section \<open>The pack loops make no teardown call either\<close>






section \<open>What a poll returns\<close>





end
